theory Spec2Isabelle
  imports Main
begin

section \<open>Python values shared by the five demonstration scripts\<close>

text \<open>
  The five scripts (\<^verbatim>\<open>srp_exemple.py\<close>, \<^verbatim>\<open>ocp_example.py\<close>, \<^verbatim>\<open>lsp_exemple.py\<close>,
  \<^verbatim>\<open>isp_exemple.py\<close>, \<^verbatim>\<open>dip_example.py\<close>) only print to the console, return values
  and raise exceptions.  The console is the list of the strings handed to \<^verbatim>\<open>print\<close>, oldest
  first; a character outside ASCII is written as its UTF-8 bytes.  A method of an object
  that may be any implementation of an abstract class takes the state of the world and
  returns an outcome (a value or the exception raised) together with the new state.
\<close>

type_synonym console = "string list"

definition print :: "string \<Rightarrow> console \<Rightarrow> console" where
  "print s out = out @ [s]"

datatype exn =
    Exception string
  | NotImplementedError string
  | TypeError
  | AttributeError
  | NameError

datatype 'a outcome = Returned 'a | Raised exn

text \<open>The characters outside ASCII that the printed lines use, as UTF-8 bytes.\<close>

definition check_mark :: string where
  "check_mark = [CHR 0xE2, CHR 0x9C, CHR 0x93]"

definition cross_mark :: string where
  "cross_mark = [CHR 0xE2, CHR 0x9D, CHR 0x8C]"

definition a_acute :: string where
  "a_acute = [CHR 0xC3, CHR 0xA1]"

definition a_tilde :: string where
  "a_tilde = [CHR 0xC3, CHR 0xA3]"

definition c_cedilla :: string where
  "c_cedilla = [CHR 0xC3, CHR 0xA7]"

definition e_acute :: string where
  "e_acute = [CHR 0xC3, CHR 0xA9]"

definition o_acute :: string where
  "o_acute = [CHR 0xC3, CHR 0xB3]"

definition o_circumflex :: string where
  "o_circumflex = [CHR 0xC3, CHR 0xB4]"

definition emoji_e_mail :: string where
  "emoji_e_mail = [CHR 0xF0, CHR 0x9F, CHR 0x93, CHR 0xA7]"

definition emoji_mobile_phone :: string where
  "emoji_mobile_phone = [CHR 0xF0, CHR 0x9F, CHR 0x93, CHR 0xB1]"

definition emoji_bell :: string where
  "emoji_bell = [CHR 0xF0, CHR 0x9F, CHR 0x94, CHR 0x94]"

definition emoji_speech_balloon :: string where
  "emoji_speech_balloon = [CHR 0xF0, CHR 0x9F, CHR 0x92, CHR 0xAC]"

definition emoji_electric_plug :: string where
  "emoji_electric_plug = [CHR 0xF0, CHR 0x9F, CHR 0x94, CHR 0x8C]"

definition emoji_floppy_disk :: string where
  "emoji_floppy_disk = [CHR 0xF0, CHR 0x9F, CHR 0x92, CHR 0xBE]"

definition emoji_open_book :: string where
  "emoji_open_book = [CHR 0xF0, CHR 0x9F, CHR 0x93, CHR 0x96]"

definition emoji_credit_card :: string where
  "emoji_credit_card = [CHR 0xF0, CHR 0x9F, CHR 0x92, CHR 0xB3]"

definition emoji_money_bag :: string where
  "emoji_money_bag = [CHR 0xF0, CHR 0x9F, CHR 0x92, CHR 0xB0]"

definition emoji_high_voltage :: string where
  "emoji_high_voltage = [CHR 0xE2, CHR 0x9A, CHR 0xA1]"

definition emoji_shopping_cart :: string where
  "emoji_shopping_cart = [CHR 0xF0, CHR 0x9F, CHR 0x9B, CHR 0x92]"

definition emoji_construction_worker :: string where
  "emoji_construction_worker = [CHR 0xF0, CHR 0x9F, CHR 0x91, CHR 0xB7]"

definition emoji_fork_knife_plate :: string where
  "emoji_fork_knife_plate = [CHR 0xF0, CHR 0x9F, CHR 0x8D, CHR 0xBD]"

definition variation_selector_16 :: string where
  "variation_selector_16 = [CHR 0xEF, CHR 0xB8, CHR 0x8F]"

definition emoji_sleeping_face :: string where
  "emoji_sleeping_face = [CHR 0xF0, CHR 0x9F, CHR 0x98, CHR 0xB4]"

definition emoji_robot :: string where
  "emoji_robot = [CHR 0xF0, CHR 0x9F, CHR 0xA4, CHR 0x96]"

definition emoji_printer :: string where
  "emoji_printer = [CHR 0xF0, CHR 0x9F, CHR 0x96, CHR 0xA8]"

definition emoji_camera :: string where
  "emoji_camera = [CHR 0xF0, CHR 0x9F, CHR 0x93, CHR 0xB7]"

definition emoji_fax :: string where
  "emoji_fax = [CHR 0xF0, CHR 0x9F, CHR 0x93, CHR 0xA0]"

definition emoji_clipboard :: string where
  "emoji_clipboard = [CHR 0xF0, CHR 0x9F, CHR 0x93, CHR 0x8B]"

section \<open>\<^verbatim>\<open>srp_exemple.py\<close>: the user repository\<close>

record User =
  name :: string
  email :: string

text \<open>
  \<^verbatim>\<open>UserRepository\<close> has no attribute: its methods depend on their arguments and the
  console only.  \<^verbatim>\<open>find_by_email\<close> prints one line and returns \<^verbatim>\<open>None\<close>.
\<close>

definition save :: "User \<Rightarrow> console \<Rightarrow> unit \<times> console" where
  "save user out =
     ((), print (check_mark @ '' Salvando usu'' @ a_acute @ ''rio '' @ name user
                 @ '' no banco de dados...'') out)"

definition find_by_email :: "string \<Rightarrow> console \<Rightarrow> User option \<times> console" where
  "find_by_email mail out =
     (None, print (check_mark @ '' Buscando usu'' @ a_acute @ ''rio com e-mail '' @ mail
                   @ ''...'') out)"

text \<open>The calls a client can make on one repository, and a run of several of them.\<close>

datatype repository_call = Save User | Find_by_email string

fun repository_do :: "repository_call \<Rightarrow> console \<Rightarrow> User option \<times> console" where
  "repository_do (Save user) out = (None, snd (save user out))"
| "repository_do (Find_by_email mail) out = find_by_email mail out"

fun repository_run :: "repository_call list \<Rightarrow> console \<Rightarrow> console" where
  "repository_run [] out = out"
| "repository_run (c # cs) out = repository_run cs (snd (repository_do c out))"

section \<open>Python floats\<close>

text \<open>
  A Python \<^verbatim>\<open>float\<close> is an IEEE 754 binary64 number.  \<open>Finite s m e\<close> is the number
  \<^verbatim>\<open>(-1)^s * m * 2^e\<close> in the format's own normal form: \<^verbatim>\<open>0 <= m < 2^53\<close>,
  \<^verbatim>\<open>-1074 <= e <= 971\<close>, and \<^verbatim>\<open>2^52 <= m\<close> unless \<^verbatim>\<open>e = -1074\<close> (zero and the
  subnormal numbers).  Every operation computes the exact result as a ratio of integers
  and rounds it once, to the nearest representable number, ties to the even significand,
  as the hardware does for \<^verbatim>\<open>*\<close>, \<^verbatim>\<open>+\<close> and \<^verbatim>\<open>-\<close> and as Python does for a decimal
  literal.
\<close>

datatype pyfloat = Finite bool int int | Infinity bool | NaN

function bit_length :: "int \<Rightarrow> int" where
  "bit_length n = (if n \<le> 0 then 0 else 1 + bit_length (n div 2))"
  by pat_completeness auto
termination
  by (relation "measure nat") auto

declare bit_length.simps [simp del]

text \<open>\<open>scale_ratio n d q\<close> is the ratio \<^verbatim>\<open>(n / d) / 2^q\<close>, kept as a pair of integers.\<close>

definition scale_ratio :: "int \<Rightarrow> int \<Rightarrow> int \<Rightarrow> int \<times> int" where
  "scale_ratio n d q = (if q < 0 then (n * 2 ^ nat (- q), d) else (n, d * 2 ^ nat q))"

text \<open>For \<open>0 < n\<close> and \<open>0 < d\<close>: the integer \<open>c\<close> with \<^verbatim>\<open>2^c <= n / d < 2^(c+1)\<close>.\<close>

definition floor_log2_ratio :: "int \<Rightarrow> int \<Rightarrow> int" where
  "floor_log2_ratio n d =
     (let c = bit_length n - bit_length d; (n', d') = scale_ratio n d c
      in if d' \<le> n' then c else c - 1)"

definition round_half_even :: "int \<Rightarrow> int \<Rightarrow> int" where
  "round_half_even n d =
     (let q = n div d; r = n mod d
      in if 2 * r < d then q
         else if d < 2 * r then q + 1
         else if even q then q else q + 1)"

text \<open>The float nearest to \<^verbatim>\<open>(-1)^s * n / d\<close>, for \<open>0 \<le> n\<close> and \<open>0 < d\<close>.\<close>

definition round_ratio :: "bool \<Rightarrow> int \<Rightarrow> int \<Rightarrow> pyfloat" where
  "round_ratio s n d =
     (if n = 0 then Finite s 0 (- 1074)
      else
        let e = max (floor_log2_ratio n d - 52) (- 1074);
            (n', d') = scale_ratio n d e;
            m = round_half_even n' d';
            (m2, e2) = (if m = 2 ^ 53 then (2 ^ 52, e + 1) else (m, e))
        in if 971 < e2 then Infinity s else Finite s m2 e2)"

text \<open>
  A decimal literal: \<open>float_of_decimal n k\<close> is the float that Python reads from the
  digits of \<open>n\<close> with the point \<open>k\<close> places from the right, so \<^verbatim>\<open>0.10\<close> is
  \<open>float_of_decimal 10 2\<close> and \<^verbatim>\<open>100.0\<close> is \<open>float_of_decimal 1000 1\<close>.
\<close>

definition float_of_decimal :: "int \<Rightarrow> nat \<Rightarrow> pyfloat" where
  "float_of_decimal n k = round_ratio (n < 0) \<bar>n\<bar> (10 ^ k)"

fun fmul :: "pyfloat \<Rightarrow> pyfloat \<Rightarrow> pyfloat" where
  "fmul NaN _ = NaN"
| "fmul _ NaN = NaN"
| "fmul (Infinity s) (Infinity t) = Infinity (s \<noteq> t)"
| "fmul (Infinity s) (Finite t m e) = (if m = 0 then NaN else Infinity (s \<noteq> t))"
| "fmul (Finite s m e) (Infinity t) = (if m = 0 then NaN else Infinity (s \<noteq> t))"
| "fmul (Finite s m e) (Finite t m' e') =
     (let (n, d) = scale_ratio (m * m') 1 (- (e + e')) in round_ratio (s \<noteq> t) n d)"

fun fneg :: "pyfloat \<Rightarrow> pyfloat" where
  "fneg NaN = NaN"
| "fneg (Infinity s) = Infinity (\<not> s)"
| "fneg (Finite s m e) = Finite (\<not> s) m e"

fun fadd :: "pyfloat \<Rightarrow> pyfloat \<Rightarrow> pyfloat" where
  "fadd NaN _ = NaN"
| "fadd _ NaN = NaN"
| "fadd (Infinity s) (Infinity t) = (if s = t then Infinity s else NaN)"
| "fadd (Infinity s) (Finite t m e) = Infinity s"
| "fadd (Finite s m e) (Infinity t) = Infinity t"
| "fadd (Finite s m e) (Finite t m' e') =
     (let q = min e e';
          v = (if s then - m else m) * 2 ^ nat (e - q)
              + (if t then - m' else m') * 2 ^ nat (e' - q)
      in if v = 0 then Finite (s \<and> t) 0 (- 1074)
         else let (n, d) = scale_ratio \<bar>v\<bar> 1 (- q) in round_ratio (v < 0) n d)"

definition fsub :: "pyfloat \<Rightarrow> pyfloat \<Rightarrow> pyfloat" where
  "fsub x y = fadd x (fneg y)"

section \<open>\<^verbatim>\<open>ocp_example.py\<close>: discounts and the notification service\<close>

text \<open>
  \<^verbatim>\<open>DiscountCalculatorBad.calculate_discount\<close>: the chain of comparisons of the
  customer type, in the order of the source; the last branch returns \<^verbatim>\<open>0.0\<close>.
\<close>

definition calculate_discount :: "string \<Rightarrow> pyfloat \<Rightarrow> pyfloat outcome" where
  "calculate_discount customer_type price =
     (if customer_type = ''regular'' then Returned (fmul price (float_of_decimal 0 1))
      else if customer_type = ''premium'' then Returned (fmul price (float_of_decimal 10 2))
      else if customer_type = ''vip'' then Returned (fmul price (float_of_decimal 20 2))
      else if customer_type = ''employee'' then Returned (fmul price (float_of_decimal 30 2))
      else Returned (float_of_decimal 0 1))"

text \<open>
  The abstract class \<^verbatim>\<open>Discount\<close>: an object with a method \<^verbatim>\<open>calculate\<close>.  The six
  subclasses of the source have no attribute and do not touch the world.
\<close>

record 'w Discount =
  calculate :: "pyfloat \<Rightarrow> 'w \<Rightarrow> pyfloat outcome \<times> 'w"

definition NoDiscount :: "'w Discount" where
  "NoDiscount = \<lparr>calculate = (\<lambda>price w. (Returned (float_of_decimal 0 1), w))\<rparr>"

definition RegularDiscount :: "'w Discount" where
  "RegularDiscount =
     \<lparr>calculate = (\<lambda>price w. (Returned (fmul price (float_of_decimal 5 2)), w))\<rparr>"

definition PremiumDiscount :: "'w Discount" where
  "PremiumDiscount =
     \<lparr>calculate = (\<lambda>price w. (Returned (fmul price (float_of_decimal 10 2)), w))\<rparr>"

definition VIPDiscount :: "'w Discount" where
  "VIPDiscount =
     \<lparr>calculate = (\<lambda>price w. (Returned (fmul price (float_of_decimal 20 2)), w))\<rparr>"

definition EmployeeDiscount :: "'w Discount" where
  "EmployeeDiscount =
     \<lparr>calculate = (\<lambda>price w. (Returned (fmul price (float_of_decimal 30 2)), w))\<rparr>"

definition SeasonalDiscount :: "'w Discount" where
  "SeasonalDiscount =
     \<lparr>calculate = (\<lambda>price w. (Returned (fmul price (float_of_decimal 15 2)), w))\<rparr>"

text \<open>
  \<^verbatim>\<open>DiscountCalculator.calculate_final_price\<close>: one call of \<^verbatim>\<open>discount.calculate\<close>, then
  the subtraction; an exception of the call leaves the method at once.
\<close>

definition calculate_final_price ::
  "pyfloat \<Rightarrow> 'w Discount \<Rightarrow> 'w \<Rightarrow> pyfloat outcome \<times> 'w" where
  "calculate_final_price price discount w =
     (case calculate discount price w of
        (Raised e, w') \<Rightarrow> (Raised e, w')
      | (Returned discount_amount, w') \<Rightarrow> (Returned (fsub price discount_amount), w'))"

text \<open>The abstract class \<^verbatim>\<open>Notifier\<close> and its four subclasses.\<close>

record 'w Notifier =
  send :: "string \<Rightarrow> 'w \<Rightarrow> unit outcome \<times> 'w"

definition EmailNotifier :: "console Notifier" where
  "EmailNotifier =
     \<lparr>send = (\<lambda>message out.
        (Returned (), print (emoji_e_mail @ '' Enviando e-mail: '' @ message) out))\<rparr>"

definition SMSNotifier :: "console Notifier" where
  "SMSNotifier =
     \<lparr>send = (\<lambda>message out.
        (Returned (), print (emoji_mobile_phone @ '' Enviando SMS: '' @ message) out))\<rparr>"

definition PushNotifier :: "console Notifier" where
  "PushNotifier =
     \<lparr>send = (\<lambda>message out.
        (Returned (), print (emoji_bell @ '' Enviando notifica'' @ c_cedilla @ a_tilde
                             @ ''o push: '' @ message) out))\<rparr>"

definition WhatsAppNotifier :: "console Notifier" where
  "WhatsAppNotifier =
     \<lparr>send = (\<lambda>message out.
        (Returned (), print (emoji_speech_balloon @ '' Enviando WhatsApp: '' @ message) out))\<rparr>"

text \<open>
  The \<^verbatim>\<open>NotificationService\<close> of this script keeps the list \<^verbatim>\<open>notifiers\<close>, empty after
  \<^verbatim>\<open>__init__\<close>; \<^verbatim>\<open>add_notifier\<close> appends to it and \<^verbatim>\<open>notify_all\<close> loops over it.  The
  loop has no \<^verbatim>\<open>try\<close>: an exception of a \<^verbatim>\<open>send\<close> ends it.
\<close>

record 'w ocp_NotificationService =
  notifiers :: "'w Notifier list"

definition ocp_NotificationService_init :: "'w ocp_NotificationService" where
  "ocp_NotificationService_init = \<lparr>notifiers = []\<rparr>"

definition add_notifier ::
  "'w ocp_NotificationService \<Rightarrow> 'w Notifier \<Rightarrow> 'w ocp_NotificationService" where
  "add_notifier self notifier = self\<lparr>notifiers := notifiers self @ [notifier]\<rparr>"

fun notify_all_loop :: "'w Notifier list \<Rightarrow> string \<Rightarrow> 'w \<Rightarrow> unit outcome \<times> 'w" where
  "notify_all_loop [] message w = (Returned (), w)"
| "notify_all_loop (notifier # rest) message w =
     (case Notifier.send notifier message w of
        (Raised e, w') \<Rightarrow> (Raised e, w')
      | (Returned _, w') \<Rightarrow> notify_all_loop rest message w')"

definition notify_all ::
  "'w ocp_NotificationService \<Rightarrow> string \<Rightarrow> 'w \<Rightarrow> unit outcome \<times> 'w" where
  "notify_all self message w = notify_all_loop (notifiers self) message w"

section \<open>\<^verbatim>\<open>dip_example.py\<close>: databases, message senders and payment processors\<close>

text \<open>The abstract class \<^verbatim>\<open>Database\<close> and its three subclasses.\<close>

record 'w Database =
  connect :: "'w \<Rightarrow> unit outcome \<times> 'w"
  save_data :: "string \<Rightarrow> 'w \<Rightarrow> unit outcome \<times> 'w"
  get_data :: "string \<Rightarrow> 'w \<Rightarrow> string outcome \<times> 'w"

definition MySQLDatabaseCorrect :: "console Database" where
  "MySQLDatabaseCorrect =
     \<lparr>connect = (\<lambda>out.
        (Returned (), print (emoji_electric_plug @ '' Conectando ao MySQL...'') out)),
      save_data = (\<lambda>data out.
        (Returned (), print (emoji_floppy_disk @ '' Salvando no MySQL: '' @ data) out)),
      get_data = (\<lambda>ident out.
        (Returned (''Dados do MySQL (ID: '' @ ident @ '')''),
         print (emoji_open_book @ '' Buscando no MySQL: ID '' @ ident) out))\<rparr>"

definition PostgreSQLDatabase :: "console Database" where
  "PostgreSQLDatabase =
     \<lparr>connect = (\<lambda>out.
        (Returned (), print (emoji_electric_plug @ '' Conectando ao PostgreSQL...'') out)),
      save_data = (\<lambda>data out.
        (Returned (), print (emoji_floppy_disk @ '' Salvando no PostgreSQL: '' @ data) out)),
      get_data = (\<lambda>ident out.
        (Returned (''Dados do PostgreSQL (ID: '' @ ident @ '')''),
         print (emoji_open_book @ '' Buscando no PostgreSQL: ID '' @ ident) out))\<rparr>"

definition MongoDBDatabase :: "console Database" where
  "MongoDBDatabase =
     \<lparr>connect = (\<lambda>out.
        (Returned (), print (emoji_electric_plug @ '' Conectando ao MongoDB...'') out)),
      save_data = (\<lambda>data out.
        (Returned (), print (emoji_floppy_disk @ '' Salvando no MongoDB: '' @ data) out)),
      get_data = (\<lambda>ident out.
        (Returned (''Dados do MongoDB (ID: '' @ ident @ '')''),
         print (emoji_open_book @ '' Buscando no MongoDB: ID '' @ ident) out))\<rparr>"

text \<open>
  \<^verbatim>\<open>UserService\<close> keeps the database it was given.  \<^verbatim>\<open>save_user\<close> connects and then
  saves; \<^verbatim>\<open>get_user\<close> returns what \<^verbatim>\<open>get_data\<close> returns.
\<close>

record 'w UserService =
  database :: "'w Database"

definition UserService :: "'w Database \<Rightarrow> 'w UserService" where
  "UserService db = \<lparr>database = db\<rparr>"

definition save_user :: "'w UserService \<Rightarrow> string \<Rightarrow> 'w \<Rightarrow> unit outcome \<times> 'w" where
  "save_user self user w =
     (case connect (database self) w of
        (Raised e, w') \<Rightarrow> (Raised e, w')
      | (Returned _, w') \<Rightarrow> save_data (database self) user w')"

definition get_user :: "'w UserService \<Rightarrow> string \<Rightarrow> 'w \<Rightarrow> string outcome \<times> 'w" where
  "get_user self ident w = get_data (database self) ident w"

text \<open>The abstract class \<^verbatim>\<open>MessageSender\<close> and its three subclasses.\<close>

record 'w MessageSender =
  send :: "string \<Rightarrow> 'w \<Rightarrow> unit outcome \<times> 'w"

definition EmailSender :: "console MessageSender" where
  "EmailSender =
     \<lparr>send = (\<lambda>message out.
        (Returned (), print (emoji_e_mail @ '' Enviando e-mail: '' @ message) out))\<rparr>"

definition SMSSender :: "console MessageSender" where
  "SMSSender =
     \<lparr>send = (\<lambda>message out.
        (Returned (), print (emoji_mobile_phone @ '' Enviando SMS: '' @ message) out))\<rparr>"

definition PushNotificationSender :: "console MessageSender" where
  "PushNotificationSender =
     \<lparr>send = (\<lambda>message out.
        (Returned (), print (emoji_bell @ '' Enviando notifica'' @ c_cedilla @ a_tilde
                             @ ''o push: '' @ message) out))\<rparr>"

text \<open>
  The \<^verbatim>\<open>NotificationService\<close> of this script keeps the list of senders it was given;
  \<^verbatim>\<open>notify\<close> loops over it, with no \<^verbatim>\<open>try\<close>.
\<close>

record 'w dip_NotificationService =
  senders :: "'w MessageSender list"

definition dip_NotificationService :: "'w MessageSender list \<Rightarrow> 'w dip_NotificationService" where
  "dip_NotificationService sender_list = \<lparr>senders = sender_list\<rparr>"

fun notify_loop :: "'w MessageSender list \<Rightarrow> string \<Rightarrow> 'w \<Rightarrow> unit outcome \<times> 'w" where
  "notify_loop [] message w = (Returned (), w)"
| "notify_loop (sender # rest) message w =
     (case MessageSender.send sender message w of
        (Raised e, w') \<Rightarrow> (Raised e, w')
      | (Returned _, w') \<Rightarrow> notify_loop rest message w')"

definition notify :: "'w dip_NotificationService \<Rightarrow> string \<Rightarrow> 'w \<Rightarrow> unit outcome \<times> 'w" where
  "notify self message w = notify_loop (senders self) message w"

text \<open>
  The abstract class \<^verbatim>\<open>PaymentProcessor\<close> and its three subclasses.  The printed lines
  show the amount through the format \<^verbatim>\<open>.2f\<close>, which belongs to Python and not to the
  script: it is the parameter \<open>format_2f\<close>, and the type of the amount is left open.
\<close>

record ('a, 'w) PaymentProcessor =
  process_payment :: "'a \<Rightarrow> 'w \<Rightarrow> bool outcome \<times> 'w"

definition CreditCardProcessor :: "('a \<Rightarrow> string) \<Rightarrow> ('a, console) PaymentProcessor" where
  "CreditCardProcessor format_2f =
     \<lparr>process_payment = (\<lambda>amount out.
        (Returned True,
         print (emoji_credit_card @ '' Processando pagamento de R$ '' @ format_2f amount
                @ '' via Cart'' @ a_tilde @ ''o de Cr'' @ e_acute @ ''dito'') out))\<rparr>"

definition PayPalProcessor :: "('a \<Rightarrow> string) \<Rightarrow> ('a, console) PaymentProcessor" where
  "PayPalProcessor format_2f =
     \<lparr>process_payment = (\<lambda>amount out.
        (Returned True,
         print (emoji_money_bag @ '' Processando pagamento de R$ '' @ format_2f amount
                @ '' via PayPal'') out))\<rparr>"

definition PixProcessor :: "('a \<Rightarrow> string) \<Rightarrow> ('a, console) PaymentProcessor" where
  "PixProcessor format_2f =
     \<lparr>process_payment = (\<lambda>amount out.
        (Returned True,
         print (emoji_high_voltage @ '' Processando pagamento de R$ '' @ format_2f amount
                @ '' via PIX'') out))\<rparr>"

text \<open>
  \<^verbatim>\<open>OrderService.create_order\<close> prints a line, asks the processor, and prints the success
  line or the failure line.
\<close>

record ('a, 'w) OrderService =
  payment_processor :: "('a, 'w) PaymentProcessor"

definition OrderService :: "('a, 'w) PaymentProcessor \<Rightarrow> ('a, 'w) OrderService" where
  "OrderService processor = \<lparr>payment_processor = processor\<rparr>"

definition order_created :: string where
  "order_created = check_mark @ '' Pedido criado com sucesso!''"

definition payment_failed :: string where
  "payment_failed = cross_mark @ '' Falha ao processar pagamento!''"

definition create_order ::
  "('a \<Rightarrow> string) \<Rightarrow> ('a, console) OrderService \<Rightarrow> 'a \<Rightarrow> console \<Rightarrow> unit outcome \<times> console" where
  "create_order format_2f self amount out =
     (case process_payment (payment_processor self) amount
             (print ([CHR 0x0A] @ emoji_shopping_cart @ '' Criando pedido de R$ ''
                     @ format_2f amount @ ''...'') out) of
        (Raised e, out') \<Rightarrow> (Raised e, out')
      | (Returned success, out') \<Rightarrow>
          if success then (Returned (), print order_created out')
          else (Returned (), print payment_failed out'))"

text \<open>The three processors that the script provides.\<close>

definition provided_processors :: "('a \<Rightarrow> string) \<Rightarrow> ('a, console) PaymentProcessor list" where
  "provided_processors format_2f =
     [CreditCardProcessor format_2f, PayPalProcessor format_2f, PixProcessor format_2f]"

section \<open>\<^verbatim>\<open>isp_exemple.py\<close> and the birds of \<^verbatim>\<open>lsp_exemple.py\<close>: classes as data\<close>

text \<open>
  What a class exposes and whether it can be instantiated depends on the class
  statements themselves, so here each class of the two scripts is a value: its bases
  and its own methods, each method with the mark of \<^verbatim>\<open>@abstractmethod\<close>, the number of
  its parameters after \<^verbatim>\<open>self\<close> and its body.  An object is the name of its class and
  its attributes; a body takes the object, the arguments and the console and returns
  an outcome, the object and the console.
\<close>

datatype pyval = PyNone | PyStr string

fun py_str :: "pyval \<Rightarrow> string" where
  "py_str PyNone = ''None''"
| "py_str (PyStr s) = s"

record pyobj =
  obj_class :: string
  obj_dict :: "string \<rightharpoonup> pyval"

record pymethod =
  is_abstract :: bool
  arity :: nat
  body :: "pyobj \<Rightarrow> pyval list \<Rightarrow> console \<Rightarrow> pyval outcome \<times> pyobj \<times> console"

record class_decl =
  bases :: "string list"
  methods :: "(string \<times> pymethod) list"

type_synonym class_table = "(string \<times> class_decl) list"

text \<open>
  The method resolution order of Python (the C3 linearisation): the class, then the
  merge of the orders of its bases and of the list of the bases.  The merge takes, as
  long as a list is left, the first head that is in the tail of no list.  \<open>None\<close> is a
  class that does not exist or has no consistent order.  The class \<^verbatim>\<open>object\<close>, which
  ends every order, is left out.
\<close>

fun c3_pick :: "string list list \<Rightarrow> string list list \<Rightarrow> string option" where
  "c3_pick [] seqs = None"
| "c3_pick ([] # ss) seqs = c3_pick ss seqs"
| "c3_pick ((c # cs) # ss) seqs =
     (if list_all (\<lambda>s. c \<notin> set (tl s)) seqs then Some c else c3_pick ss seqs)"

fun c3_merge :: "nat \<Rightarrow> string list list \<Rightarrow> string list option" where
  "c3_merge fuel seqs =
     (if list_all (\<lambda>s. s = []) seqs then Some []
      else case fuel of
        0 \<Rightarrow> None
      | Suc k \<Rightarrow>
          (case c3_pick seqs seqs of
             None \<Rightarrow> None
           | Some c \<Rightarrow> map_option ((#) c) (c3_merge k (map (removeAll c) seqs))))"

fun mro_fuel :: "nat \<Rightarrow> class_table \<Rightarrow> string \<Rightarrow> string list option" where
  "mro_fuel 0 table c = None"
| "mro_fuel (Suc k) table c =
     (case map_of table c of
        None \<Rightarrow> None
      | Some decl \<Rightarrow>
          (case those (map (mro_fuel k table) (bases decl)) of
             None \<Rightarrow> None
           | Some orders \<Rightarrow>
               map_option ((#) c)
                 (c3_merge (length (concat orders) + length (bases decl))
                    (orders @ [bases decl]))))"

text \<open>
  A chain of bases longer than the table would repeat a class, so the length of the
  table is fuel enough.
\<close>

definition mro :: "class_table \<Rightarrow> string \<Rightarrow> string list option" where
  "mro table c = mro_fuel (length table) table c"

text \<open>The first class of an order that defines the method \<open>m\<close>.\<close>

fun lookup :: "class_table \<Rightarrow> string list \<Rightarrow> string \<Rightarrow> pymethod option" where
  "lookup table [] m = None"
| "lookup table (c # cs) m =
     (case map_of table c of
        None \<Rightarrow> lookup table cs m
      | Some decl \<Rightarrow>
          (case map_of (methods decl) m of
             None \<Rightarrow> lookup table cs m
           | Some meth \<Rightarrow> Some meth))"

definition resolve :: "class_table \<Rightarrow> string \<Rightarrow> string \<Rightarrow> pymethod option" where
  "resolve table c m = (case mro table c of None \<Rightarrow> None | Some order \<Rightarrow> lookup table order m)"

text \<open>The names of the methods that a class exposes: those defined along its order.\<close>

definition exposed :: "class_table \<Rightarrow> string \<Rightarrow> string list" where
  "exposed table c =
     (case mro table c of
        None \<Rightarrow> []
      | Some order \<Rightarrow>
          remdups (concat (map (\<lambda>b. case map_of table b of
                                       None \<Rightarrow> []
                                     | Some decl \<Rightarrow> map fst (methods decl)) order)))"

text \<open>
  The abstract methods of a class are the exposed names that resolve to a method marked
  \<^verbatim>\<open>@abstractmethod\<close>.  Python refuses to instantiate a class that derives from \<^verbatim>\<open>ABC\<close>
  and has one (\<^verbatim>\<open>TypeError\<close>); for a class that does not derive from \<^verbatim>\<open>ABC\<close> the mark has
  no effect.  Then \<^verbatim>\<open>__init__\<close> runs, if a class of the order defines it; without one,
  arguments are a \<^verbatim>\<open>TypeError\<close>.
\<close>

definition abstract_methods :: "class_table \<Rightarrow> string \<Rightarrow> string list" where
  "abstract_methods table c =
     filter (\<lambda>m. case resolve table c m of None \<Rightarrow> False | Some meth \<Rightarrow> is_abstract meth)
       (exposed table c)"

definition instantiate ::
  "class_table \<Rightarrow> string \<Rightarrow> pyval list \<Rightarrow> console \<Rightarrow> pyobj outcome \<times> console" where
  "instantiate table c args out =
     (case mro table c of
        None \<Rightarrow> (Raised NameError, out)
      | Some order \<Rightarrow>
          if ''ABC'' \<in> set order \<and> abstract_methods table c \<noteq> [] then (Raised TypeError, out)
          else
            (case lookup table order ''__init__'' of
               None \<Rightarrow>
                 if args = [] then (Returned \<lparr>obj_class = c, obj_dict = Map.empty\<rparr>, out)
                 else (Raised TypeError, out)
             | Some init \<Rightarrow>
                 if length args \<noteq> arity init then (Raised TypeError, out)
                 else
                   (case body init \<lparr>obj_class = c, obj_dict = Map.empty\<rparr> args out of
                      (Raised e, self, out') \<Rightarrow> (Raised e, out')
                    | (Returned _, self, out') \<Rightarrow> (Returned self, out'))))"

text \<open>
  A method call \<^verbatim>\<open>obj.m(args)\<close>.  A name that is an attribute of the object itself is a
  string or \<^verbatim>\<open>None\<close> here, which cannot be called; a name that no class of the order
  defines is an \<^verbatim>\<open>AttributeError\<close>, raised when the call is made.
\<close>

definition call ::
  "class_table \<Rightarrow> pyobj \<Rightarrow> string \<Rightarrow> pyval list \<Rightarrow> console
     \<Rightarrow> pyval outcome \<times> pyobj \<times> console" where
  "call table self m args out =
     (case obj_dict self m of
        Some v \<Rightarrow> (Raised TypeError, self, out)
      | None \<Rightarrow>
          (case resolve table (obj_class self) m of
             None \<Rightarrow> (Raised AttributeError, self, out)
           | Some meth \<Rightarrow>
               if length args \<noteq> arity meth then (Raised TypeError, self, out)
               else body meth self args out))"

text \<open>
  The class statements of the two scripts, in the order of the scripts, and \<^verbatim>\<open>ABC\<close>,
  which they import.  A parameter \<^verbatim>\<open>p\<close> of a method is \<open>arg_p\<close> in its body; a body
  whose f-string reads \<^verbatim>\<open>self.name\<close> raises \<^verbatim>\<open>AttributeError\<close> when the object has no
  such attribute; the body of an abstract method is \<^verbatim>\<open>pass\<close>.
\<close>

definition ABC :: class_decl where
  "ABC = \<lparr>bases = [], methods = []\<rparr>"

definition Worker :: class_decl where
  "Worker =
     \<lparr>bases = [''ABC''],
      methods =
       [(''work'',
        \<lparr>is_abstract = True, arity = 0,
         body = (\<lambda>self args out.
              (Returned PyNone, self, out))\<rparr>),
        (''eat'',
        \<lparr>is_abstract = True, arity = 0,
         body = (\<lambda>self args out.
              (Returned PyNone, self, out))\<rparr>),
        (''sleep'',
        \<lparr>is_abstract = True, arity = 0,
         body = (\<lambda>self args out.
              (Returned PyNone, self, out))\<rparr>)]\<rparr>"

definition HumanWorker :: class_decl where
  "HumanWorker =
     \<lparr>bases = [''Worker''],
      methods =
       [(''work'',
        \<lparr>is_abstract = False, arity = 0,
         body = (\<lambda>self args out.
              (Returned PyNone, self,
               print (emoji_construction_worker @ '' Humano trabalhando...'') out))\<rparr>),
        (''eat'',
        \<lparr>is_abstract = False, arity = 0,
         body = (\<lambda>self args out.
              (Returned PyNone, self,
               print (emoji_fork_knife_plate @ variation_selector_16 @ ''  Humano comendo...'') out))\<rparr>),
        (''sleep'',
        \<lparr>is_abstract = False, arity = 0,
         body = (\<lambda>self args out.
              (Returned PyNone, self,
               print (emoji_sleeping_face @ '' Humano dormindo...'') out))\<rparr>)]\<rparr>"

definition RobotWorker :: class_decl where
  "RobotWorker =
     \<lparr>bases = [''Worker''],
      methods =
       [(''work'',
        \<lparr>is_abstract = False, arity = 0,
         body = (\<lambda>self args out.
              (Returned PyNone, self,
               print (emoji_robot @ '' Rob'' @ o_circumflex @ '' trabalhando...'') out))\<rparr>),
        (''eat'',
        \<lparr>is_abstract = False, arity = 0,
         body = (\<lambda>self args out.
              (Raised (NotImplementedError
                 (''Rob'' @ o_circumflex @ ''s n'' @ a_tilde @ ''o comem!'')),
               self, out))\<rparr>),
        (''sleep'',
        \<lparr>is_abstract = False, arity = 0,
         body = (\<lambda>self args out.
              (Raised (NotImplementedError
                 (''Rob'' @ o_circumflex @ ''s n'' @ a_tilde @ ''o dormem!'')),
               self, out))\<rparr>)]\<rparr>"

definition Workable :: class_decl where
  "Workable =
     \<lparr>bases = [''ABC''],
      methods =
       [(''work'',
        \<lparr>is_abstract = True, arity = 0,
         body = (\<lambda>self args out.
              (Returned PyNone, self, out))\<rparr>)]\<rparr>"

definition Eatable :: class_decl where
  "Eatable =
     \<lparr>bases = [''ABC''],
      methods =
       [(''eat'',
        \<lparr>is_abstract = True, arity = 0,
         body = (\<lambda>self args out.
              (Returned PyNone, self, out))\<rparr>)]\<rparr>"

definition Sleepable :: class_decl where
  "Sleepable =
     \<lparr>bases = [''ABC''],
      methods =
       [(''sleep'',
        \<lparr>is_abstract = True, arity = 0,
         body = (\<lambda>self args out.
              (Returned PyNone, self, out))\<rparr>)]\<rparr>"

definition HumanWorkerCorrect :: class_decl where
  "HumanWorkerCorrect =
     \<lparr>bases = [''Workable'', ''Eatable'', ''Sleepable''],
      methods =
       [(''work'',
        \<lparr>is_abstract = False, arity = 0,
         body = (\<lambda>self args out.
              (Returned PyNone, self,
               print (emoji_construction_worker @ '' Humano trabalhando...'') out))\<rparr>),
        (''eat'',
        \<lparr>is_abstract = False, arity = 0,
         body = (\<lambda>self args out.
              (Returned PyNone, self,
               print (emoji_fork_knife_plate @ variation_selector_16 @ ''  Humano comendo...'') out))\<rparr>),
        (''sleep'',
        \<lparr>is_abstract = False, arity = 0,
         body = (\<lambda>self args out.
              (Returned PyNone, self,
               print (emoji_sleeping_face @ '' Humano dormindo...'') out))\<rparr>)]\<rparr>"

definition RobotWorkerCorrect :: class_decl where
  "RobotWorkerCorrect =
     \<lparr>bases = [''Workable''],
      methods =
       [(''work'',
        \<lparr>is_abstract = False, arity = 0,
         body = (\<lambda>self args out.
              (Returned PyNone, self,
               print (emoji_robot @ '' Rob'' @ o_circumflex @ '' trabalhando 24/7...'') out))\<rparr>)]\<rparr>"

definition MultiFunctionPrinter :: class_decl where
  "MultiFunctionPrinter =
     \<lparr>bases = [''ABC''],
      methods =
       [(''print_document'',
        \<lparr>is_abstract = True, arity = 1,
         body = (\<lambda>self args out.
              case args of
                [arg_document] \<Rightarrow>
                  (Returned PyNone, self, out)
              | _ \<Rightarrow> (Raised TypeError, self, out))\<rparr>),
        (''scan_document'',
        \<lparr>is_abstract = True, arity = 0,
         body = (\<lambda>self args out.
              (Returned PyNone, self, out))\<rparr>),
        (''fax_document'',
        \<lparr>is_abstract = True, arity = 1,
         body = (\<lambda>self args out.
              case args of
                [arg_document] \<Rightarrow>
                  (Returned PyNone, self, out)
              | _ \<Rightarrow> (Raised TypeError, self, out))\<rparr>),
        (''photocopy_document'',
        \<lparr>is_abstract = True, arity = 1,
         body = (\<lambda>self args out.
              case args of
                [arg_document] \<Rightarrow>
                  (Returned PyNone, self, out)
              | _ \<Rightarrow> (Raised TypeError, self, out))\<rparr>)]\<rparr>"

definition ModernPrinter :: class_decl where
  "ModernPrinter =
     \<lparr>bases = [''MultiFunctionPrinter''],
      methods =
       [(''print_document'',
        \<lparr>is_abstract = False, arity = 1,
         body = (\<lambda>self args out.
              case args of
                [arg_document] \<Rightarrow>
                  (Returned PyNone, self,
                   print (emoji_printer @ variation_selector_16 @ ''  Imprimindo: ''
                          @ py_str arg_document) out)
              | _ \<Rightarrow> (Raised TypeError, self, out))\<rparr>),
        (''scan_document'',
        \<lparr>is_abstract = False, arity = 0,
         body = (\<lambda>self args out.
              (Returned (PyStr ''documento_escaneado.pdf''), self,
               print (emoji_camera @ '' Escaneando documento...'') out))\<rparr>),
        (''fax_document'',
        \<lparr>is_abstract = False, arity = 1,
         body = (\<lambda>self args out.
              case args of
                [arg_document] \<Rightarrow>
                  (Returned PyNone, self,
                   print (emoji_fax @ '' Enviando fax: '' @ py_str arg_document) out)
              | _ \<Rightarrow> (Raised TypeError, self, out))\<rparr>),
        (''photocopy_document'',
        \<lparr>is_abstract = False, arity = 1,
         body = (\<lambda>self args out.
              case args of
                [arg_document] \<Rightarrow>
                  (Returned PyNone, self,
                   print (emoji_clipboard @ '' Fazendo fotoc'' @ o_acute @ ''pia: ''
                          @ py_str arg_document) out)
              | _ \<Rightarrow> (Raised TypeError, self, out))\<rparr>)]\<rparr>"

definition SimplePrinter :: class_decl where
  "SimplePrinter =
     \<lparr>bases = [''MultiFunctionPrinter''],
      methods =
       [(''print_document'',
        \<lparr>is_abstract = False, arity = 1,
         body = (\<lambda>self args out.
              case args of
                [arg_document] \<Rightarrow>
                  (Returned PyNone, self,
                   print (emoji_printer @ variation_selector_16 @ ''  Imprimindo: ''
                          @ py_str arg_document) out)
              | _ \<Rightarrow> (Raised TypeError, self, out))\<rparr>),
        (''scan_document'',
        \<lparr>is_abstract = False, arity = 0,
         body = (\<lambda>self args out.
              (Raised (NotImplementedError
                 (''Esta impressora n'' @ a_tilde @ ''o escaneia!'')),
               self, out))\<rparr>),
        (''fax_document'',
        \<lparr>is_abstract = False, arity = 1,
         body = (\<lambda>self args out.
              case args of
                [arg_document] \<Rightarrow>
                  (Raised (NotImplementedError
                     (''Esta impressora n'' @ a_tilde @ ''o envia fax!'')),
                   self, out)
              | _ \<Rightarrow> (Raised TypeError, self, out))\<rparr>),
        (''photocopy_document'',
        \<lparr>is_abstract = False, arity = 1,
         body = (\<lambda>self args out.
              case args of
                [arg_document] \<Rightarrow>
                  (Raised (NotImplementedError
                     (''Esta impressora n'' @ a_tilde @ ''o faz fotoc'' @ o_acute @ ''pias!'')),
                   self, out)
              | _ \<Rightarrow> (Raised TypeError, self, out))\<rparr>)]\<rparr>"

definition Printer :: class_decl where
  "Printer =
     \<lparr>bases = [''ABC''],
      methods =
       [(''print_document'',
        \<lparr>is_abstract = True, arity = 1,
         body = (\<lambda>self args out.
              case args of
                [arg_document] \<Rightarrow>
                  (Returned PyNone, self, out)
              | _ \<Rightarrow> (Raised TypeError, self, out))\<rparr>)]\<rparr>"

definition Scanner :: class_decl where
  "Scanner =
     \<lparr>bases = [''ABC''],
      methods =
       [(''scan_document'',
        \<lparr>is_abstract = True, arity = 0,
         body = (\<lambda>self args out.
              (Returned PyNone, self, out))\<rparr>)]\<rparr>"

definition Fax :: class_decl where
  "Fax =
     \<lparr>bases = [''ABC''],
      methods =
       [(''fax_document'',
        \<lparr>is_abstract = True, arity = 1,
         body = (\<lambda>self args out.
              case args of
                [arg_document] \<Rightarrow>
                  (Returned PyNone, self, out)
              | _ \<Rightarrow> (Raised TypeError, self, out))\<rparr>)]\<rparr>"

definition Photocopier :: class_decl where
  "Photocopier =
     \<lparr>bases = [''ABC''],
      methods =
       [(''photocopy_document'',
        \<lparr>is_abstract = True, arity = 1,
         body = (\<lambda>self args out.
              case args of
                [arg_document] \<Rightarrow>
                  (Returned PyNone, self, out)
              | _ \<Rightarrow> (Raised TypeError, self, out))\<rparr>)]\<rparr>"

definition SimplePrinterCorrect :: class_decl where
  "SimplePrinterCorrect =
     \<lparr>bases = [''Printer''],
      methods =
       [(''print_document'',
        \<lparr>is_abstract = False, arity = 1,
         body = (\<lambda>self args out.
              case args of
                [arg_document] \<Rightarrow>
                  (Returned PyNone, self,
                   print (emoji_printer @ variation_selector_16 @ ''  Imprimindo: ''
                          @ py_str arg_document) out)
              | _ \<Rightarrow> (Raised TypeError, self, out))\<rparr>)]\<rparr>"

definition ModernPrinterCorrect :: class_decl where
  "ModernPrinterCorrect =
     \<lparr>bases = [''Printer'', ''Scanner'', ''Fax'', ''Photocopier''],
      methods =
       [(''print_document'',
        \<lparr>is_abstract = False, arity = 1,
         body = (\<lambda>self args out.
              case args of
                [arg_document] \<Rightarrow>
                  (Returned PyNone, self,
                   print (emoji_printer @ variation_selector_16 @ ''  Imprimindo: ''
                          @ py_str arg_document) out)
              | _ \<Rightarrow> (Raised TypeError, self, out))\<rparr>),
        (''scan_document'',
        \<lparr>is_abstract = False, arity = 0,
         body = (\<lambda>self args out.
              (Returned (PyStr ''documento_escaneado.pdf''), self,
               print (emoji_camera @ '' Escaneando documento...'') out))\<rparr>),
        (''fax_document'',
        \<lparr>is_abstract = False, arity = 1,
         body = (\<lambda>self args out.
              case args of
                [arg_document] \<Rightarrow>
                  (Returned PyNone, self,
                   print (emoji_fax @ '' Enviando fax: '' @ py_str arg_document) out)
              | _ \<Rightarrow> (Raised TypeError, self, out))\<rparr>),
        (''photocopy_document'',
        \<lparr>is_abstract = False, arity = 1,
         body = (\<lambda>self args out.
              case args of
                [arg_document] \<Rightarrow>
                  (Returned PyNone, self,
                   print (emoji_clipboard @ '' Fazendo fotoc'' @ o_acute @ ''pia: ''
                          @ py_str arg_document) out)
              | _ \<Rightarrow> (Raised TypeError, self, out))\<rparr>)]\<rparr>"

definition ScannerPrinter :: class_decl where
  "ScannerPrinter =
     \<lparr>bases = [''Printer'', ''Scanner''],
      methods =
       [(''print_document'',
        \<lparr>is_abstract = False, arity = 1,
         body = (\<lambda>self args out.
              case args of
                [arg_document] \<Rightarrow>
                  (Returned PyNone, self,
                   print (emoji_printer @ variation_selector_16 @ ''  Imprimindo: ''
                          @ py_str arg_document) out)
              | _ \<Rightarrow> (Raised TypeError, self, out))\<rparr>),
        (''scan_document'',
        \<lparr>is_abstract = False, arity = 0,
         body = (\<lambda>self args out.
              (Returned (PyStr ''documento_escaneado.pdf''), self,
               print (emoji_camera @ '' Escaneando documento...'') out))\<rparr>)]\<rparr>"

definition isp_classes :: class_table where
  "isp_classes =
     [(''ABC'', ABC),
      (''Worker'', Worker),
      (''HumanWorker'', HumanWorker),
      (''RobotWorker'', RobotWorker),
      (''Workable'', Workable),
      (''Eatable'', Eatable),
      (''Sleepable'', Sleepable),
      (''HumanWorkerCorrect'', HumanWorkerCorrect),
      (''RobotWorkerCorrect'', RobotWorkerCorrect),
      (''MultiFunctionPrinter'', MultiFunctionPrinter),
      (''ModernPrinter'', ModernPrinter),
      (''SimplePrinter'', SimplePrinter),
      (''Printer'', Printer),
      (''Scanner'', Scanner),
      (''Fax'', Fax),
      (''Photocopier'', Photocopier),
      (''SimplePrinterCorrect'', SimplePrinterCorrect),
      (''ModernPrinterCorrect'', ModernPrinterCorrect),
      (''ScannerPrinter'', ScannerPrinter)]"

definition Bird :: class_decl where
  "Bird =
     \<lparr>bases = [],
      methods =
       [(''__init__'',
        \<lparr>is_abstract = False, arity = 1,
         body = (\<lambda>self args out.
              case args of
                [arg_name] \<Rightarrow>
                  (Returned PyNone,
                   self\<lparr>obj_dict := (obj_dict self)(''name'' \<mapsto> arg_name)\<rparr>, out)
              | _ \<Rightarrow> (Raised TypeError, self, out))\<rparr>),
        (''fly'',
        \<lparr>is_abstract = False, arity = 0,
         body = (\<lambda>self args out.
              (case obj_dict self ''name'' of
                 None \<Rightarrow> (Raised AttributeError, self, out)
               | Some v_name \<Rightarrow>
                  (Returned PyNone, self,
                   print (py_str v_name @ '' est'' @ a_acute @ '' voando!'') out)))\<rparr>)]\<rparr>"

definition Sparrow :: class_decl where
  "Sparrow =
     \<lparr>bases = [''Bird''],
      methods =
       []\<rparr>"

definition Penguin :: class_decl where
  "Penguin =
     \<lparr>bases = [''Bird''],
      methods =
       [(''fly'',
        \<lparr>is_abstract = False, arity = 0,
         body = (\<lambda>self args out.
              (case obj_dict self ''name'' of
                 None \<Rightarrow> (Raised AttributeError, self, out)
               | Some v_name \<Rightarrow>
                  (Raised (Exception
                     (py_str v_name @ '' n'' @ a_tilde @ ''o pode voar! Pinguins n'' @ a_tilde
                      @ ''o voam!'')),
                   self, out)))\<rparr>)]\<rparr>"

definition Ostrich :: class_decl where
  "Ostrich =
     \<lparr>bases = [''Bird''],
      methods =
       [(''fly'',
        \<lparr>is_abstract = False, arity = 0,
         body = (\<lambda>self args out.
              (case obj_dict self ''name'' of
                 None \<Rightarrow> (Raised AttributeError, self, out)
               | Some v_name \<Rightarrow>
                  (Raised (Exception
                     (py_str v_name @ '' n'' @ a_tilde @ ''o pode voar! Avestruzes n'' @ a_tilde
                      @ ''o voam!'')),
                   self, out)))\<rparr>)]\<rparr>"

definition BirdCorrect :: class_decl where
  "BirdCorrect =
     \<lparr>bases = [],
      methods =
       [(''__init__'',
        \<lparr>is_abstract = False, arity = 1,
         body = (\<lambda>self args out.
              case args of
                [arg_name] \<Rightarrow>
                  (Returned PyNone,
                   self\<lparr>obj_dict := (obj_dict self)(''name'' \<mapsto> arg_name)\<rparr>, out)
              | _ \<Rightarrow> (Raised TypeError, self, out))\<rparr>),
        (''eat'',
        \<lparr>is_abstract = False, arity = 0,
         body = (\<lambda>self args out.
              (case obj_dict self ''name'' of
                 None \<Rightarrow> (Raised AttributeError, self, out)
               | Some v_name \<Rightarrow>
                  (Returned PyNone, self,
                   print (py_str v_name @ '' est'' @ a_acute @ '' comendo.'') out)))\<rparr>),
        (''make_sound'',
        \<lparr>is_abstract = False, arity = 0,
         body = (\<lambda>self args out.
              (case obj_dict self ''name'' of
                 None \<Rightarrow> (Raised AttributeError, self, out)
               | Some v_name \<Rightarrow>
                  (Returned PyNone, self,
                   print (py_str v_name @ '' est'' @ a_acute @ '' fazendo som.'') out)))\<rparr>)]\<rparr>"

definition FlyingBird :: class_decl where
  "FlyingBird =
     \<lparr>bases = [''BirdCorrect''],
      methods =
       [(''fly'',
        \<lparr>is_abstract = False, arity = 0,
         body = (\<lambda>self args out.
              (case obj_dict self ''name'' of
                 None \<Rightarrow> (Raised AttributeError, self, out)
               | Some v_name \<Rightarrow>
                  (Returned PyNone, self,
                   print (py_str v_name @ '' est'' @ a_acute @ '' voando!'') out)))\<rparr>)]\<rparr>"

definition NonFlyingBird :: class_decl where
  "NonFlyingBird =
     \<lparr>bases = [''BirdCorrect''],
      methods =
       [(''walk'',
        \<lparr>is_abstract = False, arity = 0,
         body = (\<lambda>self args out.
              (case obj_dict self ''name'' of
                 None \<Rightarrow> (Raised AttributeError, self, out)
               | Some v_name \<Rightarrow>
                  (Returned PyNone, self,
                   print (py_str v_name @ '' est'' @ a_acute @ '' andando.'') out)))\<rparr>)]\<rparr>"

definition SparrowCorrect :: class_decl where
  "SparrowCorrect =
     \<lparr>bases = [''FlyingBird''],
      methods =
       []\<rparr>"

definition EagleCorrect :: class_decl where
  "EagleCorrect =
     \<lparr>bases = [''FlyingBird''],
      methods =
       []\<rparr>"

definition PenguinCorrect :: class_decl where
  "PenguinCorrect =
     \<lparr>bases = [''NonFlyingBird''],
      methods =
       [(''swim'',
        \<lparr>is_abstract = False, arity = 0,
         body = (\<lambda>self args out.
              (case obj_dict self ''name'' of
                 None \<Rightarrow> (Raised AttributeError, self, out)
               | Some v_name \<Rightarrow>
                  (Returned PyNone, self,
                   print (py_str v_name @ '' est'' @ a_acute @ '' nadando!'') out)))\<rparr>)]\<rparr>"

definition OstrichCorrect :: class_decl where
  "OstrichCorrect =
     \<lparr>bases = [''NonFlyingBird''],
      methods =
       [(''run_fast'',
        \<lparr>is_abstract = False, arity = 0,
         body = (\<lambda>self args out.
              (case obj_dict self ''name'' of
                 None \<Rightarrow> (Raised AttributeError, self, out)
               | Some v_name \<Rightarrow>
                  (Returned PyNone, self,
                   print (py_str v_name @ '' est'' @ a_acute @ '' correndo muito r'' @ a_acute
                          @ ''pido!'') out)))\<rparr>)]\<rparr>"

definition lsp_classes :: class_table where
  "lsp_classes =
     [(''ABC'', ABC),
      (''Bird'', Bird),
      (''Sparrow'', Sparrow),
      (''Penguin'', Penguin),
      (''Ostrich'', Ostrich),
      (''BirdCorrect'', BirdCorrect),
      (''FlyingBird'', FlyingBird),
      (''NonFlyingBird'', NonFlyingBird),
      (''SparrowCorrect'', SparrowCorrect),
      (''EagleCorrect'', EagleCorrect),
      (''PenguinCorrect'', PenguinCorrect),
      (''OstrichCorrect'', OstrichCorrect)]"


text \<open>
  The providers of the corrected designs, and the classes of \<^verbatim>\<open>isp_exemple.py\<close> that
  only declare operations.
\<close>

definition isp_corrected :: "string list" where
  "isp_corrected =
     [''HumanWorkerCorrect'', ''RobotWorkerCorrect'', ''SimplePrinterCorrect'',
      ''ModernPrinterCorrect'', ''ScannerPrinter'']"

definition lsp_corrected :: "string list" where
  "lsp_corrected = [''SparrowCorrect'', ''EagleCorrect'', ''PenguinCorrect'', ''OstrichCorrect'']"

definition isp_capabilities :: "string list" where
  "isp_capabilities =
     [''Workable'', ''Eatable'', ''Sleepable'', ''Printer'', ''Scanner'', ''Fax'', ''Photocopier'']"

text \<open>
  Three classes that are not in the scripts, each made from a class of the scripts by
  changing its bases only, to try what the construction of a provider against a
  capability does: \<^verbatim>\<open>RobotWorkerCorrect\<close> declared against \<^verbatim>\<open>Workable\<close> and \<^verbatim>\<open>Eatable\<close>
  (it has no \<^verbatim>\<open>eat\<close>), \<^verbatim>\<open>RobotWorker\<close> declared against \<^verbatim>\<open>Workable\<close>, \<^verbatim>\<open>Eatable\<close> and
  \<^verbatim>\<open>Sleepable\<close> (its \<^verbatim>\<open>eat\<close> and \<^verbatim>\<open>sleep\<close> raise), and \<^verbatim>\<open>Penguin\<close> declared against
  \<^verbatim>\<open>FlyingBird\<close> (its \<^verbatim>\<open>fly\<close> raises).
\<close>

definition isp_classes_extended :: class_table where
  "isp_classes_extended =
     isp_classes
     @ [(''RobotWithoutEat'', RobotWorkerCorrect\<lparr>bases := [''Workable'', ''Eatable'']\<rparr>),
        (''RobotThatRaises'', RobotWorker\<lparr>bases := [''Workable'', ''Eatable'', ''Sleepable'']\<rparr>)]"

definition lsp_classes_extended :: class_table where
  "lsp_classes_extended =
     lsp_classes @ [(''PenguinThatRaises'', Penguin\<lparr>bases := [''FlyingBird'']\<rparr>)]"

section \<open>The corrected classes with their objects in a store\<close>

text \<open>
  Whether an object changes after its construction depends on which object a name
  refers to, so here the objects of the corrected classes live in a store: a list of
  objects, the address of an object being its index.  An object is an instance (the
  name of its class and its attributes) or a list of addresses; an attribute holds an
  address or a float.  The world is the store and the console.  A method takes the
  address of \<^verbatim>\<open>self\<close> and may change any object of the store.
\<close>

datatype attr_value = Ref nat | Float pyfloat

datatype heap_object =
    Instance string "string \<rightharpoonup> attr_value"
  | ListObject "nat list"

record world =
  heap :: "heap_object list"
  stdout :: console

definition alloc :: "heap_object \<Rightarrow> world \<Rightarrow> nat \<times> world" where
  "alloc obj w = (length (heap w), w\<lparr>heap := heap w @ [obj]\<rparr>)"

definition class_of :: "world \<Rightarrow> nat \<Rightarrow> string option" where
  "class_of w r =
     (if r < length (heap w)
      then (case heap w ! r of Instance c attrs \<Rightarrow> Some c | ListObject xs \<Rightarrow> None)
      else None)"

definition attr :: "world \<Rightarrow> nat \<Rightarrow> string \<Rightarrow> attr_value option" where
  "attr w r a =
     (if r < length (heap w)
      then (case heap w ! r of Instance c attrs \<Rightarrow> attrs a | ListObject xs \<Rightarrow> None)
      else None)"

definition list_items :: "world \<Rightarrow> nat \<Rightarrow> nat list option" where
  "list_items w r =
     (if r < length (heap w)
      then (case heap w ! r of Instance c attrs \<Rightarrow> None | ListObject xs \<Rightarrow> Some xs)
      else None)"

text \<open>The assignment \<^verbatim>\<open>self.a = v\<close>: it replaces one attribute of one instance.\<close>

definition set_attr :: "nat \<Rightarrow> string \<Rightarrow> attr_value \<Rightarrow> world \<Rightarrow> unit outcome \<times> world" where
  "set_attr r a v w =
     (if r < length (heap w)
      then (case heap w ! r of
              Instance c attrs \<Rightarrow>
                (Returned (), w\<lparr>heap := (heap w)[r := Instance c (attrs(a \<mapsto> v))]\<rparr>)
            | ListObject xs \<Rightarrow> (Raised AttributeError, w))
      else (Raised AttributeError, w))"

text \<open>\<^verbatim>\<open>lst.append(x)\<close> on the list at an address.\<close>

definition list_append :: "nat \<Rightarrow> nat \<Rightarrow> world \<Rightarrow> unit outcome \<times> world" where
  "list_append l x w =
     (case list_items w l of
        None \<Rightarrow> (Raised AttributeError, w)
      | Some xs \<Rightarrow> (Returned (), w\<lparr>heap := (heap w)[l := ListObject (xs @ [x])]\<rparr>))"

text \<open>
  What the methods of the providers do is given per class name, one table for each
  method of the abstract classes; a call finds the class of its target in the store.
  A target that is no instance, or whose class has no such method, is an
  \<^verbatim>\<open>AttributeError\<close>.  A provider is any such table: its methods may change the store,
  the consumer that calls them included.
\<close>

record 'a provider_classes =
  connect_of :: "string \<rightharpoonup> (nat \<Rightarrow> world \<Rightarrow> unit outcome \<times> world)"
  save_data_of :: "string \<rightharpoonup> (nat \<Rightarrow> string \<Rightarrow> world \<Rightarrow> unit outcome \<times> world)"
  get_data_of :: "string \<rightharpoonup> (nat \<Rightarrow> string \<Rightarrow> world \<Rightarrow> string outcome \<times> world)"
  send_of :: "string \<rightharpoonup> (nat \<Rightarrow> string \<Rightarrow> world \<Rightarrow> unit outcome \<times> world)"
  process_payment_of :: "string \<rightharpoonup> (nat \<Rightarrow> 'a \<Rightarrow> world \<Rightarrow> bool outcome \<times> world)"
  calculate_of :: "string \<rightharpoonup> (nat \<Rightarrow> pyfloat \<Rightarrow> world \<Rightarrow> pyfloat outcome \<times> world)"

definition method_of :: "(string \<rightharpoonup> 'f) \<Rightarrow> world \<Rightarrow> nat \<Rightarrow> 'f option" where
  "method_of table w r = (case class_of w r of None \<Rightarrow> None | Some c \<Rightarrow> table c)"

text \<open>
  The providers of the two scripts have no attribute and only print or compute: their
  methods are the ones defined above, run on the console of the world.
\<close>

definition on_console :: "(console \<Rightarrow> 'r \<times> console) \<Rightarrow> world \<Rightarrow> 'r \<times> world" where
  "on_console f w = (case f (stdout w) of (r, out') \<Rightarrow> (r, w\<lparr>stdout := out'\<rparr>))"

definition ocp_provider_classes :: "'a provider_classes" where
  "ocp_provider_classes =
     \<lparr>connect_of = Map.empty, save_data_of = Map.empty, get_data_of = Map.empty,
      send_of =
        [''EmailNotifier'' \<mapsto> (\<lambda>self message. on_console (Notifier.send EmailNotifier message)),
         ''SMSNotifier'' \<mapsto> (\<lambda>self message. on_console (Notifier.send SMSNotifier message)),
         ''PushNotifier'' \<mapsto> (\<lambda>self message. on_console (Notifier.send PushNotifier message)),
         ''WhatsAppNotifier'' \<mapsto>
           (\<lambda>self message. on_console (Notifier.send WhatsAppNotifier message))],
      process_payment_of = Map.empty,
      calculate_of =
        [''NoDiscount'' \<mapsto> (\<lambda>self. calculate NoDiscount),
         ''RegularDiscount'' \<mapsto> (\<lambda>self. calculate RegularDiscount),
         ''PremiumDiscount'' \<mapsto> (\<lambda>self. calculate PremiumDiscount),
         ''VIPDiscount'' \<mapsto> (\<lambda>self. calculate VIPDiscount),
         ''EmployeeDiscount'' \<mapsto> (\<lambda>self. calculate EmployeeDiscount),
         ''SeasonalDiscount'' \<mapsto> (\<lambda>self. calculate SeasonalDiscount)]\<rparr>"

definition dip_provider_classes :: "('a \<Rightarrow> string) \<Rightarrow> 'a provider_classes" where
  "dip_provider_classes format_2f =
     \<lparr>connect_of =
        [''MySQLDatabaseCorrect'' \<mapsto> (\<lambda>self. on_console (connect MySQLDatabaseCorrect)),
         ''PostgreSQLDatabase'' \<mapsto> (\<lambda>self. on_console (connect PostgreSQLDatabase)),
         ''MongoDBDatabase'' \<mapsto> (\<lambda>self. on_console (connect MongoDBDatabase))],
      save_data_of =
        [''MySQLDatabaseCorrect'' \<mapsto>
           (\<lambda>self data. on_console (save_data MySQLDatabaseCorrect data)),
         ''PostgreSQLDatabase'' \<mapsto> (\<lambda>self data. on_console (save_data PostgreSQLDatabase data)),
         ''MongoDBDatabase'' \<mapsto> (\<lambda>self data. on_console (save_data MongoDBDatabase data))],
      get_data_of =
        [''MySQLDatabaseCorrect'' \<mapsto>
           (\<lambda>self ident. on_console (get_data MySQLDatabaseCorrect ident)),
         ''PostgreSQLDatabase'' \<mapsto> (\<lambda>self ident. on_console (get_data PostgreSQLDatabase ident)),
         ''MongoDBDatabase'' \<mapsto> (\<lambda>self ident. on_console (get_data MongoDBDatabase ident))],
      send_of =
        [''EmailSender'' \<mapsto> (\<lambda>self message. on_console (MessageSender.send EmailSender message)),
         ''SMSSender'' \<mapsto> (\<lambda>self message. on_console (MessageSender.send SMSSender message)),
         ''PushNotificationSender'' \<mapsto>
           (\<lambda>self message. on_console (MessageSender.send PushNotificationSender message))],
      process_payment_of =
        [''CreditCardProcessor'' \<mapsto>
           (\<lambda>self amount. on_console (process_payment (CreditCardProcessor format_2f) amount)),
         ''PayPalProcessor'' \<mapsto>
           (\<lambda>self amount. on_console (process_payment (PayPalProcessor format_2f) amount)),
         ''PixProcessor'' \<mapsto>
           (\<lambda>self amount. on_console (process_payment (PixProcessor format_2f) amount))],
      calculate_of = Map.empty\<rparr>"

text \<open>The construction of an object of a class without \<^verbatim>\<open>__init__\<close>.\<close>

definition new_instance :: "string \<Rightarrow> world \<Rightarrow> nat \<times> world" where
  "new_instance c w = alloc (Instance c Map.empty) w"

text \<open>
  The \<^verbatim>\<open>NotificationService\<close> of \<^verbatim>\<open>ocp_example.py\<close>.  \<^verbatim>\<open>__init__\<close> makes a new empty list
  for \<^verbatim>\<open>notifiers\<close>; \<^verbatim>\<open>add_notifier\<close> appends to that list.  The \<^verbatim>\<open>for\<close> statement reads the
  list anew at each round, at the next index, as the list iterator of Python does; a
  provider that appends to the list makes the loop longer, so the loop need not end.
\<close>

definition ocp_NotificationService_obj :: "world \<Rightarrow> nat \<times> world" where
  "ocp_NotificationService_obj w =
     (case new_instance ''NotificationService'' w of
        (self, w1) \<Rightarrow>
          (case alloc (ListObject []) w1 of
             (l, w2) \<Rightarrow> (self, snd (set_attr self ''notifiers'' (Ref l) w2))))"

definition add_notifier_obj :: "nat \<Rightarrow> nat \<Rightarrow> world \<Rightarrow> unit outcome \<times> world" where
  "add_notifier_obj self notifier w =
     (case attr w self ''notifiers'' of
        Some (Ref l) \<Rightarrow> list_append l notifier w
      | _ \<Rightarrow> (Raised AttributeError, w))"

partial_function (option) send_each ::
  "'a provider_classes \<Rightarrow> nat \<Rightarrow> nat \<Rightarrow> string \<Rightarrow> world \<Rightarrow> (unit outcome \<times> world) option" where
  "send_each P l i message w =
     (case list_items w l of
        None \<Rightarrow> Some (Raised TypeError, w)
      | Some xs \<Rightarrow>
          if i < length xs then
            (case method_of (send_of P) w (xs ! i) of
               None \<Rightarrow> Some (Raised AttributeError, w)
             | Some f \<Rightarrow>
                 (case f (xs ! i) message w of
                    (Raised e, w') \<Rightarrow> Some (Raised e, w')
                  | (Returned u, w') \<Rightarrow> send_each P l (i + 1) message w'))
          else Some (Returned (), w))"

definition notify_all_obj ::
  "'a provider_classes \<Rightarrow> nat \<Rightarrow> string \<Rightarrow> world \<Rightarrow> (unit outcome \<times> world) option" where
  "notify_all_obj P self message w =
     (case attr w self ''notifiers'' of
        None \<Rightarrow> Some (Raised AttributeError, w)
      | Some (Float x) \<Rightarrow> Some (Raised TypeError, w)
      | Some (Ref l) \<Rightarrow> send_each P l 0 message w)"

text \<open>
  The \<^verbatim>\<open>NotificationService\<close> of \<^verbatim>\<open>dip_example.py\<close>.  \<^verbatim>\<open>__init__\<close> keeps the list it is
  given, the same object and not a copy.
\<close>

definition dip_NotificationService_obj :: "nat \<Rightarrow> world \<Rightarrow> nat \<times> world" where
  "dip_NotificationService_obj sender_list w =
     (case new_instance ''NotificationService'' w of
        (self, w1) \<Rightarrow> (self, snd (set_attr self ''senders'' (Ref sender_list) w1)))"

definition notify_obj ::
  "'a provider_classes \<Rightarrow> nat \<Rightarrow> string \<Rightarrow> world \<Rightarrow> (unit outcome \<times> world) option" where
  "notify_obj P self message w =
     (case attr w self ''senders'' of
        None \<Rightarrow> Some (Raised AttributeError, w)
      | Some (Float x) \<Rightarrow> Some (Raised TypeError, w)
      | Some (Ref l) \<Rightarrow> send_each P l 0 message w)"

text \<open>\<^verbatim>\<open>UserService\<close>, \<^verbatim>\<open>OrderService\<close> and \<^verbatim>\<open>DiscountCalculator\<close>.\<close>

definition UserService_obj :: "nat \<Rightarrow> world \<Rightarrow> nat \<times> world" where
  "UserService_obj db w =
     (case new_instance ''UserService'' w of
        (self, w1) \<Rightarrow> (self, snd (set_attr self ''database'' (Ref db) w1)))"

definition save_user_obj ::
  "'a provider_classes \<Rightarrow> nat \<Rightarrow> string \<Rightarrow> world \<Rightarrow> unit outcome \<times> world" where
  "save_user_obj P self user w =
     (case attr w self ''database'' of
        Some (Ref db) \<Rightarrow>
          (case method_of (connect_of P) w db of
             None \<Rightarrow> (Raised AttributeError, w)
           | Some f \<Rightarrow>
               (case f db w of
                  (Raised e, w') \<Rightarrow> (Raised e, w')
                | (Returned u, w') \<Rightarrow>
                    (case attr w' self ''database'' of
                       Some (Ref db') \<Rightarrow>
                         (case method_of (save_data_of P) w' db' of
                            None \<Rightarrow> (Raised AttributeError, w')
                          | Some g \<Rightarrow> g db' user w')
                     | _ \<Rightarrow> (Raised AttributeError, w'))))
      | _ \<Rightarrow> (Raised AttributeError, w))"

definition get_user_obj ::
  "'a provider_classes \<Rightarrow> nat \<Rightarrow> string \<Rightarrow> world \<Rightarrow> string outcome \<times> world" where
  "get_user_obj P self ident w =
     (case attr w self ''database'' of
        Some (Ref db) \<Rightarrow>
          (case method_of (get_data_of P) w db of
             None \<Rightarrow> (Raised AttributeError, w)
           | Some f \<Rightarrow> f db ident w)
      | _ \<Rightarrow> (Raised AttributeError, w))"

definition OrderService_obj :: "nat \<Rightarrow> world \<Rightarrow> nat \<times> world" where
  "OrderService_obj processor w =
     (case new_instance ''OrderService'' w of
        (self, w1) \<Rightarrow> (self, snd (set_attr self ''payment_processor'' (Ref processor) w1)))"

definition create_order_obj ::
  "('a \<Rightarrow> string) \<Rightarrow> 'a provider_classes \<Rightarrow> nat \<Rightarrow> 'a \<Rightarrow> world \<Rightarrow> unit outcome \<times> world" where
  "create_order_obj format_2f P self amount w =
     (case on_console (\<lambda>out. ((), print ([CHR 0x0A] @ emoji_shopping_cart
                                         @ '' Criando pedido de R$ '' @ format_2f amount
                                         @ ''...'') out)) w of
        (u, w0) \<Rightarrow>
          (case attr w0 self ''payment_processor'' of
             Some (Ref p) \<Rightarrow>
               (case method_of (process_payment_of P) w0 p of
                  None \<Rightarrow> (Raised AttributeError, w0)
                | Some f \<Rightarrow>
                    (case f p amount w0 of
                       (Raised e, w') \<Rightarrow> (Raised e, w')
                     | (Returned success, w') \<Rightarrow>
                         if success
                         then on_console (\<lambda>out. (Returned (), print order_created out)) w'
                         else on_console (\<lambda>out. (Returned (), print payment_failed out)) w'))
           | _ \<Rightarrow> (Raised AttributeError, w0)))"

definition calculate_final_price_obj ::
  "'a provider_classes \<Rightarrow> nat \<Rightarrow> pyfloat \<Rightarrow> nat \<Rightarrow> world \<Rightarrow> pyfloat outcome \<times> world" where
  "calculate_final_price_obj P self price discount w =
     (case method_of (calculate_of P) w discount of
        None \<Rightarrow> (Raised AttributeError, w)
      | Some f \<Rightarrow>
          (case f discount price w of
             (Raised e, w') \<Rightarrow> (Raised e, w')
           | (Returned discount_amount, w') \<Rightarrow> (Returned (fsub price discount_amount), w')))"

text \<open>
  \<^verbatim>\<open>RectangleCorrect\<close> and \<^verbatim>\<open>SquareCorrect\<close> of \<^verbatim>\<open>lsp_exemple.py\<close>: the attributes
  \<^verbatim>\<open>_width\<close>, \<^verbatim>\<open>_height\<close> and \<^verbatim>\<open>_side\<close>, their setters and \<^verbatim>\<open>get_area\<close>.
\<close>

definition RectangleCorrect :: "pyfloat \<Rightarrow> pyfloat \<Rightarrow> world \<Rightarrow> nat \<times> world" where
  "RectangleCorrect width height w =
     (case new_instance ''RectangleCorrect'' w of
        (self, w1) \<Rightarrow>
          (self, snd (set_attr self ''_height'' (Float height)
                        (snd (set_attr self ''_width'' (Float width) w1)))))"

definition set_width :: "nat \<Rightarrow> pyfloat \<Rightarrow> world \<Rightarrow> unit outcome \<times> world" where
  "set_width self width w = set_attr self ''_width'' (Float width) w"

definition set_height :: "nat \<Rightarrow> pyfloat \<Rightarrow> world \<Rightarrow> unit outcome \<times> world" where
  "set_height self height w = set_attr self ''_height'' (Float height) w"

definition RectangleCorrect_get_area :: "nat \<Rightarrow> world \<Rightarrow> pyfloat outcome \<times> world" where
  "RectangleCorrect_get_area self w =
     (case attr w self ''_width'' of
        None \<Rightarrow> (Raised AttributeError, w)
      | Some a \<Rightarrow>
          (case attr w self ''_height'' of
             None \<Rightarrow> (Raised AttributeError, w)
           | Some b \<Rightarrow>
               (case (a, b) of
                  (Float x, Float y) \<Rightarrow> (Returned (fmul x y), w)
                | _ \<Rightarrow> (Raised TypeError, w))))"

definition SquareCorrect :: "pyfloat \<Rightarrow> world \<Rightarrow> nat \<times> world" where
  "SquareCorrect side w =
     (case new_instance ''SquareCorrect'' w of
        (self, w1) \<Rightarrow> (self, snd (set_attr self ''_side'' (Float side) w1)))"

definition set_side :: "nat \<Rightarrow> pyfloat \<Rightarrow> world \<Rightarrow> unit outcome \<times> world" where
  "set_side self side w = set_attr self ''_side'' (Float side) w"

definition SquareCorrect_get_area :: "nat \<Rightarrow> world \<Rightarrow> pyfloat outcome \<times> world" where
  "SquareCorrect_get_area self w =
     (case attr w self ''_side'' of
        None \<Rightarrow> (Raised AttributeError, w)
      | Some (Float x) \<Rightarrow> (Returned (fmul x x), w)
      | Some (Ref r) \<Rightarrow> (Raised TypeError, w))"

text \<open>
  Providers that write to no object: every method of every class leaves the store as
  it found it.
\<close>

definition keeps_heap :: "'a provider_classes \<Rightarrow> bool" where
  "keeps_heap P =
     ((\<forall>c f self w. connect_of P c = Some f \<longrightarrow> heap (snd (f self w)) = heap w)
      \<and> (\<forall>c f self x w. save_data_of P c = Some f \<longrightarrow> heap (snd (f self x w)) = heap w)
      \<and> (\<forall>c f self x w. get_data_of P c = Some f \<longrightarrow> heap (snd (f self x w)) = heap w)
      \<and> (\<forall>c f self x w. send_of P c = Some f \<longrightarrow> heap (snd (f self x w)) = heap w)
      \<and> (\<forall>c f self x w. process_payment_of P c = Some f \<longrightarrow> heap (snd (f self x w)) = heap w)
      \<and> (\<forall>c f self x w. calculate_of P c = Some f \<longrightarrow> heap (snd (f self x w)) = heap w))"

section \<open>Test doubles\<close>

text \<open>
  Senders and notifiers that record each call they receive (who was called, with which
  message) in the world, which is the list of the calls so far; the failing ones record
  the call and raise.  They stand for any implementation a client may write.
\<close>

definition recording_sender :: "'i \<Rightarrow> ('i \<times> string) list MessageSender" where
  "recording_sender i =
     \<lparr>MessageSender.send = (\<lambda>message calls. (Returned (), calls @ [(i, message)]))\<rparr>"

definition failing_sender :: "'i \<Rightarrow> exn \<Rightarrow> ('i \<times> string) list MessageSender" where
  "failing_sender i e =
     \<lparr>MessageSender.send = (\<lambda>message calls. (Raised e, calls @ [(i, message)]))\<rparr>"

definition recording_notifier :: "'i \<Rightarrow> ('i \<times> string) list Notifier" where
  "recording_notifier i =
     \<lparr>Notifier.send = (\<lambda>message calls. (Returned (), calls @ [(i, message)]))\<rparr>"

definition failing_notifier :: "'i \<Rightarrow> exn \<Rightarrow> ('i \<times> string) list Notifier" where
  "failing_notifier i e =
     \<lparr>Notifier.send = (\<lambda>message calls. (Raised e, calls @ [(i, message)]))\<rparr>"

text \<open>The three databases that \<^verbatim>\<open>dip_example.py\<close> provides.\<close>

definition provided_databases :: "console Database list" where
  "provided_databases = [MySQLDatabaseCorrect, PostgreSQLDatabase, MongoDBDatabase]"

section \<open>Results about \<^verbatim>\<open>srp_exemple.py\<close>\<close>

text \<open>
  C9: \<^verbatim>\<open>UserRepository.find_by_email\<close> returns \<^verbatim>\<open>None\<close> for every e-mail argument,
  whatever calls (saves or lookups) were made on the repository before; the lookup only
  adds its one line to the console.
\<close>

theorem find_by_email_returns_None:
  "fst (find_by_email mail (repository_run history out)) = None
   \<and> snd (find_by_email mail (repository_run history out))
       = repository_run history out
         @ [check_mark @ '' Buscando usu'' @ a_acute @ ''rio com e-mail '' @ mail @ ''...'']"
  by (simp add: find_by_email_def print_def)

theorem find_by_email_returns_None_witness:
  "fst (find_by_email ''maria@email.com''
          (repository_run [Save \<lparr>name = ''Maria Santos'', email = ''maria@email.com''\<rparr>] []))
     = None"
  using find_by_email_returns_None
          [of "''maria@email.com''"
              "[Save \<lparr>name = ''Maria Santos'', email = ''maria@email.com''\<rparr>]" "[]"]
  by simp

section \<open>Results about \<^verbatim>\<open>dip_example.py\<close>\<close>

lemma notify_loop_append:
  "notify_loop (ps @ qs) message w =
     (case notify_loop ps message w of
        (Raised e, w') \<Rightarrow> (Raised e, w')
      | (Returned u, w') \<Rightarrow> notify_loop qs message w')"
  by (induction ps arbitrary: w) (auto split: prod.splits outcome.splits)


lemma notify_loop_recording:
  "notify_loop (map recording_sender ids) message calls
     = (Returned (), calls @ map (\<lambda>i. (i, message)) ids)"
  by (induction ids arbitrary: calls) (simp_all add: recording_sender_def)

text \<open>
  C1: substitutability.  A \<^verbatim>\<open>UserService\<close> bound to \<open>P\<close> and rebound to \<open>P'\<close> answers
  \<^verbatim>\<open>get_user\<close> and \<^verbatim>\<open>save_user\<close> exactly as \<open>P'\<close> does, whatever \<open>P\<close> was: the result
  is a function of the bound database and the argument.  For two different databases
  among the three of the script, the value returned after rebinding is the one of the
  new database and differs from the one of the old.
\<close>

theorem substitutability:
  "get_user ((UserService P)\<lparr>database := P'\<rparr>) ident w = get_data P' ident w
   \<and> save_user ((UserService P)\<lparr>database := P'\<rparr>) user w
       = (case connect P' w of
            (Raised e, w') \<Rightarrow> (Raised e, w')
          | (Returned u, w') \<Rightarrow> save_data P' user w')
   \<and> (Q \<in> set provided_databases \<longrightarrow> Q' \<in> set provided_databases \<longrightarrow> Q \<noteq> Q' \<longrightarrow>
        fst (get_user ((UserService Q)\<lparr>database := Q'\<rparr>) ident out)
          = fst (get_data Q' ident out)
        \<and> fst (get_user ((UserService Q)\<lparr>database := Q'\<rparr>) ident out)
          \<noteq> fst (get_data Q ident out))"
proof -
  have a: "get_user ((UserService P)\<lparr>database := P'\<rparr>) ident w = get_data P' ident w"
    by (simp add: get_user_def UserService_def)
  have b: "save_user ((UserService P)\<lparr>database := P'\<rparr>) user w
       = (case connect P' w of
            (Raised e, w') \<Rightarrow> (Raised e, w')
          | (Returned u, w') \<Rightarrow> save_data P' user w')"
    by (simp add: save_user_def UserService_def split: prod.splits outcome.splits)
  have c: "fst (get_user ((UserService Q)\<lparr>database := Q'\<rparr>) ident out)
             = fst (get_data Q' ident out)"
    by (simp add: get_user_def UserService_def)
  have d: "fst (get_data Q' ident out) \<noteq> fst (get_data Q ident out)"
    if "Q \<in> set provided_databases" "Q' \<in> set provided_databases" "Q \<noteq> Q'"
    using that
    by (auto simp: provided_databases_def MySQLDatabaseCorrect_def PostgreSQLDatabase_def
          MongoDBDatabase_def)
  show ?thesis using a b c d by simp
qed

theorem substitutability_witness:
  "get_user ((UserService MySQLDatabaseCorrect)\<lparr>database := PostgreSQLDatabase\<rparr>) ''123'' []
     = (Returned ''Dados do PostgreSQL (ID: 123)'',
        [emoji_open_book @ '' Buscando no PostgreSQL: ID 123''])
   \<and> MySQLDatabaseCorrect \<in> set provided_databases
   \<and> PostgreSQLDatabase \<in> set provided_databases
   \<and> MySQLDatabaseCorrect \<noteq> PostgreSQLDatabase
   \<and> fst (get_user ((UserService MySQLDatabaseCorrect)\<lparr>database := PostgreSQLDatabase\<rparr>)
             ''123'' [])
       \<noteq> fst (get_data MySQLDatabaseCorrect ''123'' [])"
proof -
  have ne: "MySQLDatabaseCorrect \<noteq> PostgreSQLDatabase"
  proof
    assume "MySQLDatabaseCorrect = PostgreSQLDatabase"
    then have "get_data MySQLDatabaseCorrect [] [] = get_data PostgreSQLDatabase [] []"
      by simp
    then show False
      by (simp add: MySQLDatabaseCorrect_def PostgreSQLDatabase_def)
  qed
  have mem: "MySQLDatabaseCorrect \<in> set provided_databases"
            "PostgreSQLDatabase \<in> set provided_databases"
    by (simp_all add: provided_databases_def)
  have val: "get_data PostgreSQLDatabase ''123'' []
     = (Returned ''Dados do PostgreSQL (ID: 123)'',
        [emoji_open_book @ '' Buscando no PostgreSQL: ID 123''])"
    by (simp add: PostgreSQLDatabase_def print_def)
  note s = substitutability
             [where P = MySQLDatabaseCorrect and P' = PostgreSQLDatabase and ident = "''123''"
                and w = "[]" and user = "''''" and Q = MySQLDatabaseCorrect
                and Q' = PostgreSQLDatabase and out = "[]"]
  have A: "get_user ((UserService MySQLDatabaseCorrect)\<lparr>database := PostgreSQLDatabase\<rparr>)
             ''123'' []
           = get_data PostgreSQLDatabase ''123'' []"
    using s by (rule conjunct1)
  have B: "fst (get_user ((UserService MySQLDatabaseCorrect)\<lparr>database := PostgreSQLDatabase\<rparr>)
                  ''123'' [])
           \<noteq> fst (get_data MySQLDatabaseCorrect ''123'' [])"
    using s ne mem by blast
  from A val have C:
    "get_user ((UserService MySQLDatabaseCorrect)\<lparr>database := PostgreSQLDatabase\<rparr>) ''123'' []
     = (Returned ''Dados do PostgreSQL (ID: 123)'',
        [emoji_open_book @ '' Buscando no PostgreSQL: ID 123''])"
    by (rule trans)
  from C mem ne B show ?thesis
    by (intro conjI)
qed

text \<open>
  C10: each of \<^verbatim>\<open>CreditCardProcessor\<close>, \<^verbatim>\<open>PayPalProcessor\<close> and \<^verbatim>\<open>PixProcessor\<close> returns
  \<^verbatim>\<open>True\<close> from \<^verbatim>\<open>process_payment\<close> for every amount, so \<^verbatim>\<open>create_order\<close> with one of
  them returns normally after printing the success line, and the failure line is not
  among the lines it prints.
\<close>

theorem create_order_always_succeeds:
  "p \<in> set (provided_processors format_2f) \<Longrightarrow>
     fst (process_payment p amount out) = Returned True
     \<and> create_order format_2f (OrderService p) amount out
         = (Returned (),
            print order_created
              (snd (process_payment p amount
                      (print ([CHR 0x0A] @ emoji_shopping_cart @ '' Criando pedido de R$ ''
                              @ format_2f amount @ ''...'') out))))
     \<and> payment_failed
         \<notin> set (drop (length out) (snd (create_order format_2f (OrderService p) amount out)))"
  by (auto simp: provided_processors_def CreditCardProcessor_def PayPalProcessor_def
        PixProcessor_def create_order_def OrderService_def print_def order_created_def
        payment_failed_def check_mark_def cross_mark_def emoji_credit_card_def
        emoji_money_bag_def emoji_high_voltage_def emoji_shopping_cart_def)

theorem create_order_always_succeeds_witness:
  "PixProcessor (\<lambda>a::unit. ''99.90'') \<in> set (provided_processors (\<lambda>a::unit. ''99.90''))
   \<and> create_order (\<lambda>a::unit. ''99.90'') (OrderService (PixProcessor (\<lambda>a::unit. ''99.90''))) () []
       = (Returned (),
          [[CHR 0x0A] @ emoji_shopping_cart @ '' Criando pedido de R$ 99.90...'',
           emoji_high_voltage @ '' Processando pagamento de R$ 99.90 via PIX'',
           order_created])"
proof -
  have mem: "PixProcessor (\<lambda>a::unit. ''99.90'') \<in> set (provided_processors (\<lambda>a::unit. ''99.90''))"
    by (simp add: provided_processors_def)
  show ?thesis
    using create_order_always_succeeds [OF mem, of "()" "[]"] mem
    by (simp add: PixProcessor_def print_def)
qed

section \<open>Results about \<^verbatim>\<open>ocp_example.py\<close>\<close>

lemma float_100_times_rates:
  "fmul (float_of_decimal 1000 1) (float_of_decimal 10 2) = float_of_decimal 100 1"
  "fmul (float_of_decimal 1000 1) (float_of_decimal 20 2) = float_of_decimal 200 1"
  "fmul (float_of_decimal 1000 1) (float_of_decimal 15 2) = float_of_decimal 150 1"
  by code_simp+

lemma float_100_minus_discounts:
  "fsub (float_of_decimal 1000 1) (float_of_decimal 0 1) = float_of_decimal 1000 1"
  "fsub (float_of_decimal 1000 1) (float_of_decimal 100 1) = float_of_decimal 900 1"
  "fsub (float_of_decimal 1000 1) (float_of_decimal 200 1) = float_of_decimal 800 1"
  "fsub (float_of_decimal 1000 1) (float_of_decimal 150 1) = float_of_decimal 850 1"
  by code_simp+

lemma float_90_is_not_10: "float_of_decimal 900 1 \<noteq> float_of_decimal 100 1"
  by code_simp

lemma notifiers_foldl_add_notifier:
  "notifiers (foldl add_notifier service ns) = notifiers service @ ns"
  by (induction ns arbitrary: service) (simp_all add: add_notifier_def)

lemma notify_all_loop_append:
  "notify_all_loop (ps @ qs) message w =
     (case notify_all_loop ps message w of
        (Raised e, w') \<Rightarrow> (Raised e, w')
      | (Returned u, w') \<Rightarrow> notify_all_loop qs message w')"
  by (induction ps arbitrary: w) (auto split: prod.splits outcome.splits)


lemma notify_all_loop_recording:
  "notify_all_loop (map recording_notifier ids) message calls
     = (Returned (), calls @ map (\<lambda>i. (i, message)) ids)"
  by (induction ids arbitrary: calls) (simp_all add: recording_notifier_def)

text \<open>
  C3: at the price \<^verbatim>\<open>100.0\<close> the discounts \<^verbatim>\<open>NoDiscount\<close>, \<^verbatim>\<open>PremiumDiscount\<close>,
  \<^verbatim>\<open>VIPDiscount\<close> and \<^verbatim>\<open>SeasonalDiscount\<close> return \<^verbatim>\<open>0.0\<close>, \<^verbatim>\<open>10.0\<close>, \<^verbatim>\<open>20.0\<close> and
  \<^verbatim>\<open>15.0\<close>, and \<^verbatim>\<open>calculate_final_price\<close> with each of them returns \<^verbatim>\<open>100.0\<close>,
  \<^verbatim>\<open>90.0\<close>, \<^verbatim>\<open>80.0\<close> and \<^verbatim>\<open>85.0\<close>: the binary64 products and differences round to
  exactly these floats.
\<close>

theorem discount_scenario:
  "calculate NoDiscount (float_of_decimal 1000 1) w = (Returned (float_of_decimal 0 1), w)
   \<and> calculate PremiumDiscount (float_of_decimal 1000 1) w
       = (Returned (float_of_decimal 100 1), w)
   \<and> calculate VIPDiscount (float_of_decimal 1000 1) w
       = (Returned (float_of_decimal 200 1), w)
   \<and> calculate SeasonalDiscount (float_of_decimal 1000 1) w
       = (Returned (float_of_decimal 150 1), w)
   \<and> calculate_final_price (float_of_decimal 1000 1) NoDiscount w
       = (Returned (float_of_decimal 1000 1), w)
   \<and> calculate_final_price (float_of_decimal 1000 1) PremiumDiscount w
       = (Returned (float_of_decimal 900 1), w)
   \<and> calculate_final_price (float_of_decimal 1000 1) VIPDiscount w
       = (Returned (float_of_decimal 800 1), w)
   \<and> calculate_final_price (float_of_decimal 1000 1) SeasonalDiscount w
       = (Returned (float_of_decimal 850 1), w)"
  by (simp add: calculate_final_price_def NoDiscount_def PremiumDiscount_def VIPDiscount_def
        SeasonalDiscount_def float_100_times_rates float_100_minus_discounts
        del: One_nat_def)

theorem discount_scenario_witness:
  "calculate_final_price (float_of_decimal 1000 1) SeasonalDiscount ()
     = (Returned (Finite False 5981343255101440 (- 46)), ())"
proof -
  have "float_of_decimal 850 1 = Finite False 5981343255101440 (- 46)"
    by code_simp
  then show ?thesis
    using discount_scenario [of "()"] by (simp del: One_nat_def)
qed

text \<open>
  C4, as the claim states it, fails: \<^verbatim>\<open>calculate_final_price\<close> does not return the
  result of \<^verbatim>\<open>calculate\<close> unchanged.  At the price \<^verbatim>\<open>100.0\<close> with \<^verbatim>\<open>PremiumDiscount\<close>
  the discount is \<^verbatim>\<open>10.0\<close> and the method returns \<^verbatim>\<open>90.0\<close>.
\<close>

theorem calculate_final_price_pass_through_counterexample:
  "calculate_final_price (float_of_decimal 1000 1) PremiumDiscount ()
     \<noteq> calculate PremiumDiscount (float_of_decimal 1000 1) ()"
  by (simp add: calculate_final_price_def PremiumDiscount_def float_100_times_rates
        float_100_minus_discounts float_90_is_not_10 del: One_nat_def)

text \<open>
  C4 amended: \<^verbatim>\<open>UserService.get_user\<close> returns what \<^verbatim>\<open>get_data\<close> of the bound database
  returns, value or exception, with the world as \<^verbatim>\<open>get_data\<close> leaves it, and a second
  call asks the database again (nothing is cached); \<^verbatim>\<open>calculate_final_price\<close> calls
  \<^verbatim>\<open>calculate\<close> of the discount once with the price and returns the price minus the
  amount it got (an exception of \<^verbatim>\<open>calculate\<close> is passed on unchanged).
\<close>

theorem single_strategy_invoke:
  "get_user (UserService db) ident w = get_data db ident w
   \<and> (case get_user (UserService db) ident w of (r, w') \<Rightarrow> get_user (UserService db) ident w')
       = (case get_data db ident w of (r, w') \<Rightarrow> get_data db ident w')
   \<and> (calculate discount price v = (Returned amount, v')
        \<longrightarrow> calculate_final_price price discount v = (Returned (fsub price amount), v'))
   \<and> (calculate discount price v = (Raised e, v')
        \<longrightarrow> calculate_final_price price discount v = (Raised e, v'))"
  by (simp add: get_user_def UserService_def calculate_final_price_def)

theorem single_strategy_invoke_witness:
  "calculate VIPDiscount (float_of_decimal 1000 1) () = (Returned (float_of_decimal 200 1), ())
   \<and> calculate_final_price (float_of_decimal 1000 1) VIPDiscount ()
       = (Returned (float_of_decimal 800 1), ())
   \<and> get_user (UserService MongoDBDatabase) ''789'' []
       = (Returned ''Dados do MongoDB (ID: 789)'',
          [emoji_open_book @ '' Buscando no MongoDB: ID 789''])"
proof -
  have c: "calculate VIPDiscount (float_of_decimal 1000 1) ()
             = (Returned (float_of_decimal 200 1), ())"
    by (simp add: VIPDiscount_def float_100_times_rates del: One_nat_def)
  have g: "get_data MongoDBDatabase ''789'' []
             = (Returned ''Dados do MongoDB (ID: 789)'',
                [emoji_open_book @ '' Buscando no MongoDB: ID 789''])"
    by (simp add: MongoDBDatabase_def print_def)
  show ?thesis
    using single_strategy_invoke
            [where db = MongoDBDatabase and ident = "''789''" and w = "[]"
               and discount = VIPDiscount and price = "float_of_decimal 1000 1"
               and v = "()" and amount = "float_of_decimal 200 1" and v' = "()"]
          c g
    by (simp add: float_100_minus_discounts del: One_nat_def)
qed

text \<open>
  C6, as the claim states it, fails: for a customer type that the chain does not know,
  \<^verbatim>\<open>calculate_discount\<close> raises nothing; it returns \<^verbatim>\<open>0.0\<close>.
\<close>

theorem calculate_discount_unknown_tag_counterexample:
  "calculate_discount ''student'' (float_of_decimal 1000 1) = Returned (float_of_decimal 0 1)"
  by (simp add: calculate_discount_def)

text \<open>
  C6 amended: when \<^verbatim>\<open>DiscountCalculatorBad.calculate_discount\<close> receives a customer type
  other than \<^verbatim>\<open>regular\<close>, \<^verbatim>\<open>premium\<close>, \<^verbatim>\<open>vip\<close> and \<^verbatim>\<open>employee\<close>, it returns the discount
  \<^verbatim>\<open>0.0\<close> to its caller, whatever the price, and raises no exception.
\<close>

theorem calculate_discount_unknown_tag:
  "customer_type \<notin> {''regular'', ''premium'', ''vip'', ''employee''} \<Longrightarrow>
     calculate_discount customer_type price = Returned (float_of_decimal 0 1)"
  by (simp add: calculate_discount_def)

theorem calculate_discount_unknown_tag_witness:
  "''gold'' \<notin> {''regular'', ''premium'', ''vip'', ''employee''}
   \<and> calculate_discount ''gold'' (float_of_decimal 25050 2) = Returned (float_of_decimal 0 1)"
proof -
  have h: "''gold'' \<notin> {''regular'', ''premium'', ''vip'', ''employee''}"
    by simp
  show ?thesis
    using calculate_discount_unknown_tag [OF h, of "float_of_decimal 25050 2"] h
    by simp
qed

section \<open>Results about the two notification services\<close>




text \<open>
  C8: the loops of \<^verbatim>\<open>notify\<close> and \<^verbatim>\<open>notify_all\<close> fail fast.  When the providers before
  a position return normally and the provider at that position raises, the call raises
  the same exception and leaves the world as that provider left it, whatever providers
  follow: they are not invoked, and no other failure is collected.  With providers that
  record their calls, the calls recorded are those up to the failing provider.
\<close>

theorem fan_out_fails_fast:
  "(notify (dip_NotificationService before) message w = (Returned (), w1) \<longrightarrow>
    MessageSender.send failing message w1 = (Raised e, w2) \<longrightarrow>
      notify (dip_NotificationService (before @ failing # rest)) message w = (Raised e, w2))
   \<and> (notify_all (foldl add_notifier ocp_NotificationService_init before') message v
         = (Returned (), v1) \<longrightarrow>
       Notifier.send failing' message v1 = (Raised e, v2) \<longrightarrow>
         notify_all (foldl add_notifier ocp_NotificationService_init
                       (before' @ failing' # rest')) message v = (Raised e, v2))
   \<and> notify (dip_NotificationService
               (map recording_sender ids @ failing_sender k e # map recording_sender later))
         message calls
       = (Raised e, calls @ map (\<lambda>i. (i, message)) ids @ [(k, message)])
   \<and> notify_all (foldl add_notifier ocp_NotificationService_init
                    (map recording_notifier ids @ failing_notifier k e
                       # map recording_notifier later))
         message calls
       = (Raised e, calls @ map (\<lambda>i. (i, message)) ids @ [(k, message)])"
proof -
  have a: "notify (dip_NotificationService (before @ failing # rest)) message w = (Raised e, w2)"
    if "notify (dip_NotificationService before) message w = (Returned (), w1)"
       "MessageSender.send failing message w1 = (Raised e, w2)"
    using that
    by (simp add: notify_def dip_NotificationService_def notify_loop_append)
  have b: "notify_all (foldl add_notifier ocp_NotificationService_init
                         (before' @ failing' # rest')) message v = (Raised e, v2)"
    if "notify_all (foldl add_notifier ocp_NotificationService_init before') message v
          = (Returned (), v1)"
       "Notifier.send failing' message v1 = (Raised e, v2)"
    using that
    by (simp add: notify_all_def notifiers_foldl_add_notifier ocp_NotificationService_init_def
          notify_all_loop_append add_notifier_def)
  have c: "notify (dip_NotificationService
               (map recording_sender ids @ failing_sender k e # map recording_sender later))
             message calls
           = (Raised e, calls @ map (\<lambda>i. (i, message)) ids @ [(k, message)])"
    by (simp add: notify_def dip_NotificationService_def notify_loop_append
          notify_loop_recording failing_sender_def)
  have d: "notify_all (foldl add_notifier ocp_NotificationService_init
                    (map recording_notifier ids @ failing_notifier k e
                       # map recording_notifier later))
             message calls
           = (Raised e, calls @ map (\<lambda>i. (i, message)) ids @ [(k, message)])"
    by (simp add: notify_all_def notifiers_foldl_add_notifier ocp_NotificationService_init_def
          notify_all_loop_append notify_all_loop_recording failing_notifier_def
          add_notifier_def)
  show ?thesis using a b c d by blast
qed

theorem fan_out_fails_fast_witness:
  "notify (dip_NotificationService [recording_sender (0::nat)]) ''m'' [] = (Returned (), [(0, ''m'')])
   \<and> MessageSender.send (failing_sender (1::nat) (Exception ''down'')) ''m'' [(0, ''m'')]
       = (Raised (Exception ''down''), [(0, ''m''), (1, ''m'')])
   \<and> notify (dip_NotificationService
               ([recording_sender (0::nat)] @ failing_sender (1::nat) (Exception ''down'')
                  # [recording_sender (2::nat), recording_sender (3::nat)]))
         ''m'' []
       = (Raised (Exception ''down''), [(0, ''m''), (1, ''m'')])"
proof -
  have h1: "notify (dip_NotificationService [recording_sender (0::nat)]) ''m'' []
              = (Returned (), [(0, ''m'')])"
    by (simp add: notify_def dip_NotificationService_def recording_sender_def)
  have h2: "MessageSender.send (failing_sender (1::nat) (Exception ''down'')) ''m'' [(0, ''m'')]
              = (Raised (Exception ''down''), [(0, ''m''), (1, ''m'')])"
    by (simp add: failing_sender_def)
  have "notify (dip_NotificationService
               ([recording_sender (0::nat)] @ failing_sender (1::nat) (Exception ''down'')
                  # [recording_sender (2::nat), recording_sender (3::nat)]))
         ''m'' []
       = (Raised (Exception ''down''), [(0, ''m''), (1, ''m'')])"
    using fan_out_fails_fast
            [where before = "[recording_sender (0::nat)]" and message = "''m''" and w = "[]"
               and ?w1.0 = "[(0, ''m'')]"
               and failing = "failing_sender (1::nat) (Exception ''down'')"
               and e = "Exception ''down''" and ?w2.0 = "[(0, ''m''), (1, ''m'')]"
               and rest = "[recording_sender (2::nat), recording_sender (3::nat)]",
             THEN conjunct1]
          h1 h2
    by blast
  then show ?thesis using h1 h2 by simp
qed

section \<open>Results about the classes of \<^verbatim>\<open>isp_exemple.py\<close> and the birds\<close>

lemma mro_isp_corrected:
  "mro isp_classes ''HumanWorkerCorrect''
     = Some [''HumanWorkerCorrect'', ''Workable'', ''Eatable'', ''Sleepable'', ''ABC'']"
  "mro isp_classes ''RobotWorkerCorrect'' = Some [''RobotWorkerCorrect'', ''Workable'', ''ABC'']"
  "mro isp_classes ''SimplePrinterCorrect'' = Some [''SimplePrinterCorrect'', ''Printer'', ''ABC'']"
  "mro isp_classes ''ModernPrinterCorrect''
     = Some [''ModernPrinterCorrect'', ''Printer'', ''Scanner'', ''Fax'', ''Photocopier'', ''ABC'']"
  "mro isp_classes ''ScannerPrinter'' = Some [''ScannerPrinter'', ''Printer'', ''Scanner'', ''ABC'']"
  by code_simp+

lemma mro_isp_capabilities:
  "mro isp_classes ''Workable'' = Some [''Workable'', ''ABC'']"
  "mro isp_classes ''Eatable'' = Some [''Eatable'', ''ABC'']"
  "mro isp_classes ''Sleepable'' = Some [''Sleepable'', ''ABC'']"
  "mro isp_classes ''Printer'' = Some [''Printer'', ''ABC'']"
  "mro isp_classes ''Scanner'' = Some [''Scanner'', ''ABC'']"
  "mro isp_classes ''Fax'' = Some [''Fax'', ''ABC'']"
  "mro isp_classes ''Photocopier'' = Some [''Photocopier'', ''ABC'']"
  by code_simp+

lemma mro_isp_wrong:
  "mro isp_classes ''RobotWorker'' = Some [''RobotWorker'', ''Worker'', ''ABC'']"
  "mro isp_classes ''SimplePrinter'' = Some [''SimplePrinter'', ''MultiFunctionPrinter'', ''ABC'']"
  by code_simp+

lemma mro_lsp:
  "mro lsp_classes ''SparrowCorrect'' = Some [''SparrowCorrect'', ''FlyingBird'', ''BirdCorrect'']"
  "mro lsp_classes ''EagleCorrect'' = Some [''EagleCorrect'', ''FlyingBird'', ''BirdCorrect'']"
  "mro lsp_classes ''PenguinCorrect'' = Some [''PenguinCorrect'', ''NonFlyingBird'', ''BirdCorrect'']"
  "mro lsp_classes ''OstrichCorrect'' = Some [''OstrichCorrect'', ''NonFlyingBird'', ''BirdCorrect'']"
  "mro lsp_classes ''Penguin'' = Some [''Penguin'', ''Bird'']"
  "mro lsp_classes ''Ostrich'' = Some [''Ostrich'', ''Bird'']"
  by code_simp+

lemmas isp_decls =
  isp_classes_def ABC_def Worker_def HumanWorker_def RobotWorker_def Workable_def Eatable_def
  Sleepable_def HumanWorkerCorrect_def RobotWorkerCorrect_def MultiFunctionPrinter_def
  ModernPrinter_def SimplePrinter_def Printer_def Scanner_def Fax_def Photocopier_def
  SimplePrinterCorrect_def ModernPrinterCorrect_def ScannerPrinter_def

lemmas lsp_decls =
  lsp_classes_def ABC_def Bird_def Sparrow_def Penguin_def Ostrich_def BirdCorrect_def
  FlyingBird_def NonFlyingBird_def SparrowCorrect_def EagleCorrect_def PenguinCorrect_def
  OstrichCorrect_def

lemma resolve_isp_corrected:
  "resolve isp_classes ''HumanWorkerCorrect'' m
     = lookup isp_classes [''HumanWorkerCorrect'', ''Workable'', ''Eatable'', ''Sleepable'', ''ABC''] m"
  "resolve isp_classes ''RobotWorkerCorrect'' m
     = lookup isp_classes [''RobotWorkerCorrect'', ''Workable'', ''ABC''] m"
  "resolve isp_classes ''SimplePrinterCorrect'' m
     = lookup isp_classes [''SimplePrinterCorrect'', ''Printer'', ''ABC''] m"
  "resolve isp_classes ''ModernPrinterCorrect'' m
     = lookup isp_classes
         [''ModernPrinterCorrect'', ''Printer'', ''Scanner'', ''Fax'', ''Photocopier'', ''ABC''] m"
  "resolve isp_classes ''ScannerPrinter'' m
     = lookup isp_classes [''ScannerPrinter'', ''Printer'', ''Scanner'', ''ABC''] m"
  by (simp_all add: resolve_def mro_isp_corrected)

lemma resolve_lsp_corrected:
  "resolve lsp_classes ''SparrowCorrect'' m
     = lookup lsp_classes [''SparrowCorrect'', ''FlyingBird'', ''BirdCorrect''] m"
  "resolve lsp_classes ''EagleCorrect'' m
     = lookup lsp_classes [''EagleCorrect'', ''FlyingBird'', ''BirdCorrect''] m"
  "resolve lsp_classes ''PenguinCorrect'' m
     = lookup lsp_classes [''PenguinCorrect'', ''NonFlyingBird'', ''BirdCorrect''] m"
  "resolve lsp_classes ''OstrichCorrect'' m
     = lookup lsp_classes [''OstrichCorrect'', ''NonFlyingBird'', ''BirdCorrect''] m"
  by (simp_all add: resolve_def mro_lsp)

lemma isp_corrected_calls_return:
  assumes "c \<in> set isp_corrected" and "obj_class self = c" and "obj_dict self = Map.empty"
      and "resolve isp_classes c m = Some meth" and "length args = arity meth"
  shows "\<exists>r out'. call isp_classes self m args out = (Returned r, self, out')"
  using assms
  apply (simp add: isp_corrected_def)
  apply (elim disjE)
  apply (simp_all add: call_def resolve_isp_corrected)
  apply (auto simp: isp_decls length_Suc_conv split: if_splits)
  done

lemma lsp_corrected_calls_return:
  assumes "c \<in> set lsp_corrected" and "obj_class self = c"
      and "obj_dict self = [''name'' \<mapsto> v]"
      and "resolve lsp_classes c m = Some meth" and "length args = arity meth"
  shows "\<exists>r self' out' v'. call lsp_classes self m args out = (Returned r, self', out')
           \<and> obj_class self' = c \<and> obj_dict self' = [''name'' \<mapsto> v']"
  using assms
  apply (simp add: lsp_corrected_def)
  apply (elim disjE)
  apply (simp_all add: call_def resolve_lsp_corrected)
  apply (auto simp: lsp_decls length_Suc_conv split: if_splits)
  apply (rule exI, rule refl)+
  done

lemma abstract_methods_isp_corrected:
  "abstract_methods isp_classes ''HumanWorkerCorrect'' = []"
  "abstract_methods isp_classes ''RobotWorkerCorrect'' = []"
  "abstract_methods isp_classes ''SimplePrinterCorrect'' = []"
  "abstract_methods isp_classes ''ModernPrinterCorrect'' = []"
  "abstract_methods isp_classes ''ScannerPrinter'' = []"
  by code_simp+

lemma abstract_methods_isp_capabilities:
  "abstract_methods isp_classes ''Workable'' = [''work'']"
  "abstract_methods isp_classes ''Eatable'' = [''eat'']"
  "abstract_methods isp_classes ''Sleepable'' = [''sleep'']"
  "abstract_methods isp_classes ''Printer'' = [''print_document'']"
  "abstract_methods isp_classes ''Scanner'' = [''scan_document'']"
  "abstract_methods isp_classes ''Fax'' = [''fax_document'']"
  "abstract_methods isp_classes ''Photocopier'' = [''photocopy_document'']"
  by code_simp+

lemma isp_corrected_instantiate:
  assumes "c \<in> set isp_corrected"
  shows "instantiate isp_classes c [] out = (Returned \<lparr>obj_class = c, obj_dict = Map.empty\<rparr>, out)"
  using assms
  apply (simp add: isp_corrected_def)
  apply (elim disjE)
  apply (simp_all add: instantiate_def mro_isp_corrected abstract_methods_isp_corrected)
  apply (simp_all add: isp_decls)
  done

lemma lsp_corrected_instantiate:
  assumes "c \<in> set lsp_corrected"
  shows "instantiate lsp_classes c [v] out
           = (Returned \<lparr>obj_class = c, obj_dict = [''name'' \<mapsto> v]\<rparr>, out)"
  using assms
  apply (simp add: lsp_corrected_def)
  apply (elim disjE)
  apply (simp_all add: instantiate_def mro_lsp)
  apply (simp_all add: lsp_decls)
  done

lemma isp_capabilities_rejected:
  assumes "k \<in> set isp_capabilities"
  shows "instantiate isp_classes k args out = (Raised TypeError, out)"
  using assms
  apply (simp add: isp_capabilities_def)
  apply (elim disjE)
  apply (simp_all add: instantiate_def mro_isp_capabilities abstract_methods_isp_capabilities)
  done

lemma mro_extended:
  "mro isp_classes_extended ''RobotWithoutEat''
     = Some [''RobotWithoutEat'', ''Workable'', ''Eatable'', ''ABC'']"
  "mro isp_classes_extended ''RobotThatRaises''
     = Some [''RobotThatRaises'', ''Workable'', ''Eatable'', ''Sleepable'', ''ABC'']"
  "mro lsp_classes_extended ''PenguinThatRaises''
     = Some [''PenguinThatRaises'', ''FlyingBird'', ''BirdCorrect'']"
  by code_simp+

lemma abstract_methods_extended:
  "abstract_methods isp_classes_extended ''RobotWithoutEat'' = [''eat'']"
  "abstract_methods isp_classes_extended ''RobotThatRaises'' = []"
  by code_simp+

lemma robot_without_eat_rejected:
  "instantiate isp_classes_extended ''RobotWithoutEat'' args out = (Raised TypeError, out)"
  by (simp add: instantiate_def mro_extended abstract_methods_extended)

lemma robot_that_raises_accepted:
  "instantiate isp_classes_extended ''RobotThatRaises'' [] out
     = (Returned \<lparr>obj_class = ''RobotThatRaises'', obj_dict = Map.empty\<rparr>, out)"
  apply (simp add: instantiate_def mro_extended abstract_methods_extended)
  apply (simp add: isp_classes_extended_def isp_decls)
  done

lemma robot_that_raises_eat:
  "call isp_classes_extended \<lparr>obj_class = ''RobotThatRaises'', obj_dict = Map.empty\<rparr>
     ''eat'' [] out
   = (Raised (NotImplementedError (''Rob'' @ o_circumflex @ ''s n'' @ a_tilde @ ''o comem!'')),
      \<lparr>obj_class = ''RobotThatRaises'', obj_dict = Map.empty\<rparr>, out)"
  apply (simp add: call_def resolve_def mro_extended)
  apply (simp add: isp_classes_extended_def isp_decls)
  done

lemma penguin_that_raises_accepted:
  "instantiate lsp_classes_extended ''PenguinThatRaises'' [v] out
     = (Returned \<lparr>obj_class = ''PenguinThatRaises'', obj_dict = [''name'' \<mapsto> v]\<rparr>, out)"
  apply (simp add: instantiate_def mro_extended)
  apply (simp add: lsp_classes_extended_def lsp_decls)
  done

lemma penguin_that_raises_fly:
  "call lsp_classes_extended
     \<lparr>obj_class = ''PenguinThatRaises'', obj_dict = [''name'' \<mapsto> v]\<rparr> ''fly'' [] out
   = (Raised (Exception (py_str v @ '' n'' @ a_tilde @ ''o pode voar! Pinguins n'' @ a_tilde
                         @ ''o voam!'')),
      \<lparr>obj_class = ''PenguinThatRaises'', obj_dict = [''name'' \<mapsto> v]\<rparr>, out)"
  apply (simp add: call_def resolve_def mro_extended)
  apply (simp add: lsp_classes_extended_def lsp_decls)
  done

lemma wrong_classes_raise_when_called:
  "instantiate isp_classes ''RobotWorker'' [] out
     = (Returned \<lparr>obj_class = ''RobotWorker'', obj_dict = Map.empty\<rparr>, out)"
  "call isp_classes \<lparr>obj_class = ''RobotWorker'', obj_dict = Map.empty\<rparr> ''eat'' [] out
     = (Raised (NotImplementedError (''Rob'' @ o_circumflex @ ''s n'' @ a_tilde @ ''o comem!'')),
        \<lparr>obj_class = ''RobotWorker'', obj_dict = Map.empty\<rparr>, out)"
  "instantiate lsp_classes ''Penguin'' [v] out
     = (Returned \<lparr>obj_class = ''Penguin'', obj_dict = [''name'' \<mapsto> v]\<rparr>, out)"
  "call lsp_classes \<lparr>obj_class = ''Penguin'', obj_dict = [''name'' \<mapsto> v]\<rparr> ''fly'' [] out
     = (Raised (Exception (py_str v @ '' n'' @ a_tilde @ ''o pode voar! Pinguins n'' @ a_tilde
                           @ ''o voam!'')),
        \<lparr>obj_class = ''Penguin'', obj_dict = [''name'' \<mapsto> v]\<rparr>, out)"
proof -
  have am: "abstract_methods isp_classes ''RobotWorker'' = []"
    by code_simp
  show "instantiate isp_classes ''RobotWorker'' [] out
     = (Returned \<lparr>obj_class = ''RobotWorker'', obj_dict = Map.empty\<rparr>, out)"
    apply (simp add: instantiate_def mro_isp_wrong am)
    apply (simp add: isp_decls)
    done
  show "call isp_classes \<lparr>obj_class = ''RobotWorker'', obj_dict = Map.empty\<rparr> ''eat'' [] out
     = (Raised (NotImplementedError (''Rob'' @ o_circumflex @ ''s n'' @ a_tilde @ ''o comem!'')),
        \<lparr>obj_class = ''RobotWorker'', obj_dict = Map.empty\<rparr>, out)"
    apply (simp add: call_def resolve_def mro_isp_wrong)
    apply (simp add: isp_decls)
    done
  show "instantiate lsp_classes ''Penguin'' [v] out
     = (Returned \<lparr>obj_class = ''Penguin'', obj_dict = [''name'' \<mapsto> v]\<rparr>, out)"
    apply (simp add: instantiate_def mro_lsp)
    apply (simp add: lsp_decls)
    done
  show "call lsp_classes \<lparr>obj_class = ''Penguin'', obj_dict = [''name'' \<mapsto> v]\<rparr> ''fly'' [] out
     = (Raised (Exception (py_str v @ '' n'' @ a_tilde @ ''o pode voar! Pinguins n'' @ a_tilde
                           @ ''o voam!'')),
        \<lparr>obj_class = ''Penguin'', obj_dict = [''name'' \<mapsto> v]\<rparr>, out)"
    apply (simp add: call_def resolve_def mro_lsp)
    apply (simp add: lsp_decls)
    done
qed

text \<open>
  C5, as the claim states it, fails: the construction of a provider against a
  capability that it cannot support is not always rejected.  \<^verbatim>\<open>RobotWorker\<close> declared
  against \<^verbatim>\<open>Workable\<close>, \<^verbatim>\<open>Eatable\<close> and \<^verbatim>\<open>Sleepable\<close> is instantiated without an error
  and its \<^verbatim>\<open>eat\<close> raises \<^verbatim>\<open>NotImplementedError\<close> when it is called; \<^verbatim>\<open>Penguin\<close> declared
  against \<^verbatim>\<open>FlyingBird\<close> is instantiated without an error and its \<^verbatim>\<open>fly\<close> raises when it
  is called.
\<close>

theorem construction_time_rejection_counterexample:
  "instantiate isp_classes_extended ''RobotThatRaises'' [] []
     = (Returned \<lparr>obj_class = ''RobotThatRaises'', obj_dict = Map.empty\<rparr>, [])
   \<and> call isp_classes_extended \<lparr>obj_class = ''RobotThatRaises'', obj_dict = Map.empty\<rparr>
         ''eat'' [] []
       = (Raised (NotImplementedError (''Rob'' @ o_circumflex @ ''s n'' @ a_tilde @ ''o comem!'')),
          \<lparr>obj_class = ''RobotThatRaises'', obj_dict = Map.empty\<rparr>, [])
   \<and> instantiate lsp_classes_extended ''PenguinThatRaises'' [PyStr ''Pinguim''] []
       = (Returned \<lparr>obj_class = ''PenguinThatRaises'',
                     obj_dict = [''name'' \<mapsto> PyStr ''Pinguim'']\<rparr>, [])
   \<and> call lsp_classes_extended
         \<lparr>obj_class = ''PenguinThatRaises'', obj_dict = [''name'' \<mapsto> PyStr ''Pinguim'']\<rparr>
         ''fly'' [] []
       = (Raised (Exception (''Pinguim n'' @ a_tilde @ ''o pode voar! Pinguins n'' @ a_tilde
                             @ ''o voam!'')),
          \<lparr>obj_class = ''PenguinThatRaises'', obj_dict = [''name'' \<mapsto> PyStr ''Pinguim'']\<rparr>,
          [])"
  by (simp add: robot_that_raises_accepted robot_that_raises_eat penguin_that_raises_accepted
        penguin_that_raises_fly)

text \<open>
  C5 amended: every method that a corrected provider exposes (\<^verbatim>\<open>HumanWorkerCorrect\<close>,
  \<^verbatim>\<open>RobotWorkerCorrect\<close>, \<^verbatim>\<open>SimplePrinterCorrect\<close>, \<^verbatim>\<open>ModernPrinterCorrect\<close>,
  \<^verbatim>\<open>ScannerPrinter\<close>, \<^verbatim>\<open>SparrowCorrect\<close>, \<^verbatim>\<open>EagleCorrect\<close>, \<^verbatim>\<open>PenguinCorrect\<close>,
  \<^verbatim>\<open>OstrichCorrect\<close>) returns normally when it is called with the number of arguments it
  declares, on the object as constructed and as any such call leaves it, unlike \<^verbatim>\<open>eat\<close>
  of \<^verbatim>\<open>RobotWorker\<close> and \<^verbatim>\<open>fly\<close> of \<^verbatim>\<open>Penguin\<close>, which raise when called.  Construction is
  rejected by the check of abstract methods only: to instantiate a class that derives
  from \<^verbatim>\<open>ABC\<close> and leaves an abstract operation without implementation (the seven
  capability classes themselves, or a robot declared against \<^verbatim>\<open>Workable\<close> and \<^verbatim>\<open>Eatable\<close>
  without \<^verbatim>\<open>eat\<close>) raises \<^verbatim>\<open>TypeError\<close>.  A class that implements the operation by raising
  is accepted at construction and raises at the call, under the abstract capabilities
  as under the bird classes, which are not abstract.
\<close>

theorem corrected_providers_return:
  "(c \<in> set isp_corrected \<longrightarrow>
      instantiate isp_classes c [] out
        = (Returned \<lparr>obj_class = c, obj_dict = Map.empty\<rparr>, out)
      \<and> (resolve isp_classes c m = Some meth \<longrightarrow> length args = arity meth \<longrightarrow>
           (\<exists>r out'. call isp_classes \<lparr>obj_class = c, obj_dict = Map.empty\<rparr> m args out
                        = (Returned r, \<lparr>obj_class = c, obj_dict = Map.empty\<rparr>, out'))))
   \<and> (b \<in> set lsp_corrected \<longrightarrow>
      instantiate lsp_classes b [v] out
        = (Returned \<lparr>obj_class = b, obj_dict = [''name'' \<mapsto> v]\<rparr>, out)
      \<and> (resolve lsp_classes b n = Some meth' \<longrightarrow> length args' = arity meth' \<longrightarrow>
           (\<exists>r self' out' v'.
              call lsp_classes \<lparr>obj_class = b, obj_dict = [''name'' \<mapsto> v]\<rparr> n args' out
                = (Returned r, self', out')
              \<and> obj_class self' = b \<and> obj_dict self' = [''name'' \<mapsto> v'])))
   \<and> (k \<in> set isp_capabilities \<longrightarrow>
        instantiate isp_classes k args'' out = (Raised TypeError, out))
   \<and> instantiate isp_classes_extended ''RobotWithoutEat'' args'' out = (Raised TypeError, out)
   \<and> instantiate isp_classes_extended ''RobotThatRaises'' [] out
       = (Returned \<lparr>obj_class = ''RobotThatRaises'', obj_dict = Map.empty\<rparr>, out)
   \<and> fst (call isp_classes_extended \<lparr>obj_class = ''RobotThatRaises'', obj_dict = Map.empty\<rparr>
             ''eat'' [] out)
       = Raised (NotImplementedError (''Rob'' @ o_circumflex @ ''s n'' @ a_tilde @ ''o comem!''))
   \<and> instantiate lsp_classes_extended ''PenguinThatRaises'' [v] out
       = (Returned \<lparr>obj_class = ''PenguinThatRaises'', obj_dict = [''name'' \<mapsto> v]\<rparr>, out)
   \<and> fst (call lsp_classes_extended
             \<lparr>obj_class = ''PenguinThatRaises'', obj_dict = [''name'' \<mapsto> v]\<rparr> ''fly'' [] out)
       = Raised (Exception (py_str v @ '' n'' @ a_tilde @ ''o pode voar! Pinguins n'' @ a_tilde
                            @ ''o voam!''))
   \<and> instantiate isp_classes ''RobotWorker'' [] out
       = (Returned \<lparr>obj_class = ''RobotWorker'', obj_dict = Map.empty\<rparr>, out)
   \<and> fst (call isp_classes \<lparr>obj_class = ''RobotWorker'', obj_dict = Map.empty\<rparr> ''eat'' [] out)
       = Raised (NotImplementedError (''Rob'' @ o_circumflex @ ''s n'' @ a_tilde @ ''o comem!''))
   \<and> instantiate lsp_classes ''Penguin'' [v] out
       = (Returned \<lparr>obj_class = ''Penguin'', obj_dict = [''name'' \<mapsto> v]\<rparr>, out)
   \<and> fst (call lsp_classes \<lparr>obj_class = ''Penguin'', obj_dict = [''name'' \<mapsto> v]\<rparr> ''fly'' [] out)
       = Raised (Exception (py_str v @ '' n'' @ a_tilde @ ''o pode voar! Pinguins n'' @ a_tilde
                            @ ''o voam!''))"
proof -
  have isp: "\<exists>r out'. call isp_classes \<lparr>obj_class = c, obj_dict = Map.empty\<rparr> m args out
                        = (Returned r, \<lparr>obj_class = c, obj_dict = Map.empty\<rparr>, out')"
    if "c \<in> set isp_corrected" "resolve isp_classes c m = Some meth" "length args = arity meth"
    using isp_corrected_calls_return
            [of c "\<lparr>obj_class = c, obj_dict = Map.empty\<rparr>" m meth args out] that
    by simp
  have lsp: "\<exists>r self' out' v'.
              call lsp_classes \<lparr>obj_class = b, obj_dict = [''name'' \<mapsto> v]\<rparr> n args' out
                = (Returned r, self', out')
              \<and> obj_class self' = b \<and> obj_dict self' = [''name'' \<mapsto> v']"
    if "b \<in> set lsp_corrected" "resolve lsp_classes b n = Some meth'"
       "length args' = arity meth'"
    using lsp_corrected_calls_return
            [of b "\<lparr>obj_class = b, obj_dict = [''name'' \<mapsto> v]\<rparr>" v n meth' args' out] that
    by simp
  show ?thesis
    using isp lsp
    by (intro conjI impI)
       (simp_all add: isp_corrected_instantiate lsp_corrected_instantiate
          isp_capabilities_rejected robot_without_eat_rejected robot_that_raises_accepted
          robot_that_raises_eat penguin_that_raises_accepted penguin_that_raises_fly
          wrong_classes_raise_when_called)
qed

theorem corrected_providers_return_witness:
  "instantiate isp_classes ''RobotWorkerCorrect'' [] []
     = (Returned \<lparr>obj_class = ''RobotWorkerCorrect'', obj_dict = Map.empty\<rparr>, [])
   \<and> call isp_classes \<lparr>obj_class = ''RobotWorkerCorrect'', obj_dict = Map.empty\<rparr> ''work'' [] []
       = (Returned PyNone, \<lparr>obj_class = ''RobotWorkerCorrect'', obj_dict = Map.empty\<rparr>,
          [emoji_robot @ '' Rob'' @ o_circumflex @ '' trabalhando 24/7...''])
   \<and> instantiate lsp_classes ''PenguinCorrect'' [PyStr ''Pinguim''] []
       = (Returned \<lparr>obj_class = ''PenguinCorrect'', obj_dict = [''name'' \<mapsto> PyStr ''Pinguim'']\<rparr>,
          [])
   \<and> fst (call lsp_classes
             \<lparr>obj_class = ''PenguinCorrect'', obj_dict = [''name'' \<mapsto> PyStr ''Pinguim'']\<rparr>
             ''swim'' [] [])
       = Returned PyNone
   \<and> instantiate isp_classes ''Eatable'' [] [] = (Raised TypeError, [])"
proof -
  let ?robot = "\<lparr>obj_class = ''RobotWorkerCorrect'', obj_dict = Map.empty\<rparr>"
  let ?penguin = "\<lparr>obj_class = ''PenguinCorrect'', obj_dict = [''name'' \<mapsto> PyStr ''Pinguim'']\<rparr>"
  let ?work = "\<lparr>is_abstract = False, arity = 0,
                 body = (\<lambda>self args out. (Returned PyNone, self,
                   print (emoji_robot @ '' Rob'' @ o_circumflex @ '' trabalhando 24/7...'') out))\<rparr>"
  let ?swim = "\<lparr>is_abstract = False, arity = 0,
                 body = (\<lambda>self args out.
                   case obj_dict self ''name'' of
                     None \<Rightarrow> (Raised AttributeError, self, out)
                   | Some v_name \<Rightarrow>
                       (Returned PyNone, self,
                        print (py_str v_name @ '' est'' @ a_acute @ '' nadando!'') out))\<rparr>"
  have c: "''RobotWorkerCorrect'' \<in> set isp_corrected"
    by (simp add: isp_corrected_def)
  have b: "''PenguinCorrect'' \<in> set lsp_corrected"
    by (simp add: lsp_corrected_def)
  have k: "''Eatable'' \<in> set isp_capabilities"
    by (simp add: isp_capabilities_def)
  have rw: "resolve isp_classes ''RobotWorkerCorrect'' ''work'' = Some ?work"
    apply (simp add: resolve_isp_corrected)
    apply (simp add: isp_decls)
    done
  have rs: "resolve lsp_classes ''PenguinCorrect'' ''swim'' = Some ?swim"
    apply (simp add: resolve_lsp_corrected)
    apply (simp add: lsp_decls)
    done
  note t = corrected_providers_return
             [where c = "''RobotWorkerCorrect''" and out = "[]" and m = "''work''"
                and meth = ?work and args = "[]" and b = "''PenguinCorrect''"
                and v = "PyStr ''Pinguim''" and n = "''swim''" and meth' = ?swim
                and args' = "[]" and k = "''Eatable''" and args'' = "[]"]
  have i1: "instantiate isp_classes ''RobotWorkerCorrect'' [] [] = (Returned ?robot, [])"
    using t c by blast
  have c1: "\<exists>r out'. call isp_classes ?robot ''work'' [] [] = (Returned r, ?robot, out')"
    using t c rw by simp
  have i2: "instantiate lsp_classes ''PenguinCorrect'' [PyStr ''Pinguim''] []
              = (Returned ?penguin, [])"
    using t b by blast
  have c2: "\<exists>r self' out' v'. call lsp_classes ?penguin ''swim'' [] [] = (Returned r, self', out')
              \<and> obj_class self' = ''PenguinCorrect'' \<and> obj_dict self' = [''name'' \<mapsto> v']"
    using t b rs by simp
  have i3: "instantiate isp_classes ''Eatable'' [] [] = (Raised TypeError, [])"
    using t k by blast
  have e1: "fst (call isp_classes ?robot ''work'' [] []) = Returned PyNone
            \<and> snd (snd (call isp_classes ?robot ''work'' [] []))
                = [emoji_robot @ '' Rob'' @ o_circumflex @ '' trabalhando 24/7...'']"
    using rw by (simp add: call_def print_def)
  have e2: "fst (call lsp_classes ?penguin ''swim'' [] []) = Returned PyNone"
    using rs by (simp add: call_def)
  from c1 e1 have c1': "call isp_classes ?robot ''work'' [] []
       = (Returned PyNone, ?robot, [emoji_robot @ '' Rob'' @ o_circumflex @ '' trabalhando 24/7...''])"
    by auto
  from i1 c1' i2 e2 i3 show ?thesis
    by (intro conjI)
qed

section \<open>Results about the objects in the store\<close>

lemma heap_on_console: "heap (snd (on_console f w)) = heap w"
  by (simp add: on_console_def split: prod.splits)

lemma list_items_same_heap: "heap w' = heap w \<Longrightarrow> list_items w' l = list_items w l"
  by (simp add: list_items_def)

lemma attr_same_heap: "heap w' = heap w \<Longrightarrow> attr w' r a = attr w r a"
  by (simp add: attr_def)

lemma keeps_heap_ocp: "keeps_heap ocp_provider_classes"
  by (auto simp: keeps_heap_def ocp_provider_classes_def heap_on_console NoDiscount_def
        RegularDiscount_def PremiumDiscount_def VIPDiscount_def EmployeeDiscount_def
        SeasonalDiscount_def split: if_splits)

lemma keeps_heap_dip: "keeps_heap (dip_provider_classes format_2f)"
  by (auto simp: keeps_heap_def dip_provider_classes_def heap_on_console split: if_splits)

lemma keeps_heap_send:
  assumes "keeps_heap P" and "method_of (send_of P) w r = Some f"
  shows "heap (snd (f self x v)) = heap v"
proof -
  from assms(2) obtain c where "send_of P c = Some f"
    by (auto simp: method_of_def split: option.splits)
  with assms(1) show ?thesis
    by (simp add: keeps_heap_def)
qed

lemma keeps_heap_connect:
  assumes "keeps_heap P" and "method_of (connect_of P) w r = Some f"
  shows "heap (snd (f self v)) = heap v"
proof -
  from assms(2) obtain c where "connect_of P c = Some f"
    by (auto simp: method_of_def split: option.splits)
  with assms(1) show ?thesis
    by (simp add: keeps_heap_def)
qed

lemma keeps_heap_save_data:
  assumes "keeps_heap P" and "method_of (save_data_of P) w r = Some f"
  shows "heap (snd (f self x v)) = heap v"
proof -
  from assms(2) obtain c where "save_data_of P c = Some f"
    by (auto simp: method_of_def split: option.splits)
  with assms(1) show ?thesis
    by (simp add: keeps_heap_def)
qed

lemma keeps_heap_get_data:
  assumes "keeps_heap P" and "method_of (get_data_of P) w r = Some f"
  shows "heap (snd (f self x v)) = heap v"
proof -
  from assms(2) obtain c where "get_data_of P c = Some f"
    by (auto simp: method_of_def split: option.splits)
  with assms(1) show ?thesis
    by (simp add: keeps_heap_def)
qed

lemma keeps_heap_process_payment:
  assumes "keeps_heap P" and "method_of (process_payment_of P) w r = Some f"
  shows "heap (snd (f self x v)) = heap v"
proof -
  from assms(2) obtain c where "process_payment_of P c = Some f"
    by (auto simp: method_of_def split: option.splits)
  with assms(1) show ?thesis
    by (simp add: keeps_heap_def)
qed

lemma keeps_heap_calculate:
  assumes "keeps_heap P" and "method_of (calculate_of P) w r = Some f"
  shows "heap (snd (f self x v)) = heap v"
proof -
  from assms(2) obtain c where "calculate_of P c = Some f"
    by (auto simp: method_of_def split: option.splits)
  with assms(1) show ?thesis
    by (simp add: keeps_heap_def)
qed

text \<open>
  With providers that write to no object, the loop over a list ends and leaves the
  store unchanged: the list keeps its length, so the index reaches its end.
\<close>

lemma send_each_keeps_heap:
  assumes P: "keeps_heap P"
  shows "\<exists>r w'. send_each P l i message w = Some (r, w') \<and> heap w' = heap w"
proof (cases "list_items w l")
  case None
  then show ?thesis
    by (subst send_each.simps) simp
next
  case (Some xs)
  have "list_items v l = Some xs \<Longrightarrow> length xs - j = k \<Longrightarrow>
          \<exists>r w'. send_each P l j message v = Some (r, w') \<and> heap w' = heap v" for k j v
  proof (induction k arbitrary: j v)
    case 0
    then have "\<not> j < length xs" by simp
    then show ?case
      using "0.prems"(1) by (subst send_each.simps) simp
  next
    case (Suc k)
    then have j: "j < length xs" by simp
    show ?case
    proof (cases "method_of (send_of P) v (xs ! j)")
      case None
      then show ?thesis
        using Suc.prems(1) j by (subst send_each.simps) simp
    next
      case (Some f)
      obtain r v1 where step: "f (xs ! j) message v = (r, v1)"
        by (cases "f (xs ! j) message v")
      have same: "heap v1 = heap v"
        using keeps_heap_send [OF P Some, of "xs ! j" message v] step by simp
      show ?thesis
      proof (cases r)
        case (Raised e)
        then show ?thesis
          using Suc.prems(1) j Some step same by (subst send_each.simps) simp
      next
        case (Returned u)
        have items: "list_items v1 l = Some xs"
          using list_items_same_heap [OF same] Suc.prems(1) by simp
        have "length xs - (j + 1) = k"
          using Suc.prems(2) by simp
        from Suc.IH [OF items this]
        obtain r' w' where "send_each P l (j + 1) message v1 = Some (r', w')"
          and "heap w' = heap v1"
          by blast
        then show ?thesis
          using Suc.prems(1) j Some step same Returned by (subst send_each.simps) simp
      qed
    qed
  qed
  from this [OF Some refl] show ?thesis .
qed

lemma notify_all_obj_keeps_heap:
  assumes "keeps_heap P"
  shows "\<exists>r w'. notify_all_obj P self message w = Some (r, w') \<and> heap w' = heap w"
  using send_each_keeps_heap [OF assms]
  by (simp add: notify_all_obj_def split: option.splits attr_value.splits)

lemma notify_obj_keeps_heap:
  assumes "keeps_heap P"
  shows "\<exists>r w'. notify_obj P self message w = Some (r, w') \<and> heap w' = heap w"
  using send_each_keeps_heap [OF assms]
  by (simp add: notify_obj_def split: option.splits attr_value.splits)

lemma get_user_obj_keeps_heap:
  assumes P: "keeps_heap P"
  shows "heap (snd (get_user_obj P self ident w)) = heap w"
proof (cases "attr w self ''database''")
  case None
  then show ?thesis by (simp add: get_user_obj_def)
next
  case (Some a)
  show ?thesis
  proof (cases a)
    case (Float x)
    then show ?thesis using Some by (simp add: get_user_obj_def)
  next
    case (Ref db)
    show ?thesis
    proof (cases "method_of (get_data_of P) w db")
      case None
      then show ?thesis using Some Ref by (simp add: get_user_obj_def)
    next
      case (Some f)
      from keeps_heap_get_data [OF P Some, of db ident w]
      show ?thesis using \<open>attr w self ''database'' = Some a\<close> Ref Some
        by (simp add: get_user_obj_def)
    qed
  qed
qed

lemma save_data_step_keeps_heap:
  assumes P: "keeps_heap P"
  shows "heap (snd (case attr v self ''database'' of
                      Some (Ref db') \<Rightarrow>
                        (case method_of (save_data_of P) v db' of
                           None \<Rightarrow> (Raised AttributeError, v)
                         | Some g \<Rightarrow> g db' user v)
                    | _ \<Rightarrow> (Raised AttributeError, v)))
           = heap v"
proof (cases "attr v self ''database''")
  case None
  then show ?thesis by simp
next
  case (Some a)
  show ?thesis
  proof (cases a)
    case (Float x)
    then show ?thesis using Some by simp
  next
    case (Ref db')
    show ?thesis
    proof (cases "method_of (save_data_of P) v db'")
      case None
      then show ?thesis using Some Ref by simp
    next
      case (Some g)
      from keeps_heap_save_data [OF P Some, of db' user v]
      show ?thesis using \<open>attr v self ''database'' = Some a\<close> Ref Some
        by simp
    qed
  qed
qed

lemma save_user_obj_keeps_heap:
  assumes P: "keeps_heap P"
  shows "heap (snd (save_user_obj P self user w)) = heap w"
proof (cases "attr w self ''database''")
  case None
  then show ?thesis by (simp add: save_user_obj_def)
next
  case (Some a)
  show ?thesis
  proof (cases a)
    case (Float x)
    then show ?thesis using Some by (simp add: save_user_obj_def)
  next
    case (Ref db)
    show ?thesis
    proof (cases "method_of (connect_of P) w db")
      case None
      then show ?thesis using Some Ref by (simp add: save_user_obj_def)
    next
      case (Some f)
      obtain r w1 where step: "f db w = (r, w1)"
        by (cases "f db w")
      have same: "heap w1 = heap w"
        using keeps_heap_connect [OF P Some, of db w] step by simp
      show ?thesis
      proof (cases r)
        case (Raised e)
        then show ?thesis
          using \<open>attr w self ''database'' = Some a\<close> Ref Some step same
          by (simp add: save_user_obj_def)
      next
        case (Returned u)
        then show ?thesis
          using \<open>attr w self ''database'' = Some a\<close> Ref Some step same
            save_data_step_keeps_heap [OF P, where v = w1 and self = self and user = user]
          by (simp add: save_user_obj_def)
      qed
    qed
  qed
qed

lemma reads_ignore_stdout:
  "attr (w\<lparr>stdout := s\<rparr>) r a = attr w r a"
  "method_of table (w\<lparr>stdout := s\<rparr>) r = method_of table w r"
  by (simp_all add: attr_def method_of_def class_of_def)

lemma create_order_obj_keeps_heap:
  assumes P: "keeps_heap P"
  shows "heap (snd (create_order_obj format_2f P self amount w)) = heap w"
proof (cases "attr w self ''payment_processor''")
  case None
  then show ?thesis
    by (simp add: create_order_obj_def on_console_def reads_ignore_stdout)
next
  case (Some a)
  show ?thesis
  proof (cases a)
    case (Float x)
    then show ?thesis
      using Some by (simp add: create_order_obj_def on_console_def reads_ignore_stdout)
  next
    case (Ref p)
    show ?thesis
    proof (cases "method_of (process_payment_of P) w p")
      case None
      then show ?thesis
        using Some Ref by (simp add: create_order_obj_def on_console_def reads_ignore_stdout)
    next
      case (Some f)
      let ?w0 = "w\<lparr>stdout := print ([CHR 0x0A] @ emoji_shopping_cart
                                      @ '' Criando pedido de R$ '' @ format_2f amount @ ''...'')
                                 (stdout w)\<rparr>"
      obtain r w1 where step: "f p amount ?w0 = (r, w1)"
        by (cases "f p amount ?w0")
      have same: "heap w1 = heap w"
        using keeps_heap_process_payment [OF P Some, of p amount ?w0] step by simp
      show ?thesis
        using \<open>attr w self ''payment_processor'' = Some a\<close> Ref Some step same
        by (cases r)
           (simp_all add: create_order_obj_def on_console_def reads_ignore_stdout)
    qed
  qed
qed

lemma calculate_final_price_obj_keeps_heap:
  assumes P: "keeps_heap P"
  shows "heap (snd (calculate_final_price_obj P self price discount w)) = heap w"
proof (cases "method_of (calculate_of P) w discount")
  case None
  then show ?thesis by (simp add: calculate_final_price_obj_def)
next
  case (Some f)
  obtain r w1 where step: "f discount price w = (r, w1)"
    by (cases "f discount price w")
  have same: "heap w1 = heap w"
    using keeps_heap_calculate [OF P Some, of discount price w] step by simp
  show ?thesis
    using Some step same
    by (cases r) (simp_all add: calculate_final_price_obj_def)
qed

lemma get_area_keeps_world:
  "snd (RectangleCorrect_get_area self w) = w"
  "snd (SquareCorrect_get_area self w) = w"
  by (simp_all add: RectangleCorrect_get_area_def SquareCorrect_get_area_def
        split: option.splits attr_value.splits)

lemma add_notifier_obj_appends:
  assumes "attr w self ''notifiers'' = Some (Ref l)" and "list_items w l = Some xs"
  shows "add_notifier_obj self notifier w
           = (Returned (), w\<lparr>heap := (heap w)[l := ListObject (xs @ [notifier])]\<rparr>)"
  using assms by (simp add: add_notifier_obj_def list_append_def)

lemma setters_replace_one_attribute:
  assumes "self < length (heap w)" and "heap w ! self = Instance c attrs"
  shows "set_width self x w
           = (Returned (), w\<lparr>heap := (heap w)[self := Instance c (attrs(''_width'' \<mapsto> Float x))]\<rparr>)"
    and "set_height self x w
           = (Returned (), w\<lparr>heap := (heap w)[self := Instance c (attrs(''_height'' \<mapsto> Float x))]\<rparr>)"
    and "set_side self x w
           = (Returned (), w\<lparr>heap := (heap w)[self := Instance c (attrs(''_side'' \<mapsto> Float x))]\<rparr>)"
  using assms by (simp_all add: set_width_def set_height_def set_side_def set_attr_def)

lemma constructors_in_store:
  "ocp_NotificationService_obj w
     = (length (heap w),
        w\<lparr>heap := heap w @ [Instance ''NotificationService''
                                [''notifiers'' \<mapsto> Ref (Suc (length (heap w)))],
                              ListObject []]\<rparr>)"
  "dip_NotificationService_obj l w
     = (length (heap w),
        w\<lparr>heap := heap w @ [Instance ''NotificationService'' [''senders'' \<mapsto> Ref l]]\<rparr>)"
  "UserService_obj db w
     = (length (heap w),
        w\<lparr>heap := heap w @ [Instance ''UserService'' [''database'' \<mapsto> Ref db]]\<rparr>)"
  "OrderService_obj p w
     = (length (heap w),
        w\<lparr>heap := heap w @ [Instance ''OrderService'' [''payment_processor'' \<mapsto> Ref p]]\<rparr>)"
  by (simp_all add: ocp_NotificationService_obj_def dip_NotificationService_obj_def
        UserService_obj_def OrderService_obj_def new_instance_def alloc_def set_attr_def
        nth_append)

lemma isp_corrected_calls_keep_object:
  assumes "c \<in> set isp_corrected" and "resolve isp_classes c m = Some meth"
      and "length args = arity meth"
  shows "fst (snd (call isp_classes \<lparr>obj_class = c, obj_dict = Map.empty\<rparr> m args out))
           = \<lparr>obj_class = c, obj_dict = Map.empty\<rparr>"
  using isp_corrected_calls_return
          [OF assms(1), of "\<lparr>obj_class = c, obj_dict = Map.empty\<rparr>" m meth args out] assms
  by auto

lemma lsp_corrected_calls_keep_object:
  assumes "c \<in> set lsp_corrected" and "m \<noteq> ''__init__''"
      and "resolve lsp_classes c m = Some meth" and "length args = arity meth"
  shows "fst (snd (call lsp_classes \<lparr>obj_class = c, obj_dict = [''name'' \<mapsto> v]\<rparr> m args out))
           = \<lparr>obj_class = c, obj_dict = [''name'' \<mapsto> v]\<rparr>"
  using assms
  apply (simp add: lsp_corrected_def)
  apply (elim disjE)
  apply (simp_all add: call_def resolve_lsp_corrected)
  apply (auto simp: lsp_decls length_Suc_conv split: if_splits)
  done

lemma float_5_7_differ: "float_of_decimal 7 0 \<noteq> float_of_decimal 5 0"
  by code_simp

text \<open>
  C7, as the claim states it, fails: objects of the corrected classes change after
  their construction.  \<^verbatim>\<open>add_notifier\<close> changes the list of a \<^verbatim>\<open>NotificationService\<close>
  built by its constructor, so \<^verbatim>\<open>notify_all\<close>, which printed nothing, prints a line;
  \<^verbatim>\<open>set_width\<close> changes the width of a \<^verbatim>\<open>RectangleCorrect\<close>; and the
  \<^verbatim>\<open>NotificationService\<close> of \<^verbatim>\<open>dip_example.py\<close> notifies one more sender after its caller
  has appended that sender to the list the service was built with.
\<close>

theorem immutability_counterexample:
  "snd (new_instance ''EmailNotifier''
          (snd (ocp_NotificationService_obj \<lparr>heap = [], stdout = []\<rparr>)))
     = \<lparr>heap = [Instance ''NotificationService'' [''notifiers'' \<mapsto> Ref 1], ListObject [],
                Instance ''EmailNotifier'' Map.empty],
        stdout = []\<rparr>
   \<and> notify_all_obj (ocp_provider_classes :: unit provider_classes) 0 ''ok''
         \<lparr>heap = [Instance ''NotificationService'' [''notifiers'' \<mapsto> Ref 1], ListObject [],
                  Instance ''EmailNotifier'' Map.empty],
          stdout = []\<rparr>
       = Some (Returned (),
               \<lparr>heap = [Instance ''NotificationService'' [''notifiers'' \<mapsto> Ref 1],
                        ListObject [], Instance ''EmailNotifier'' Map.empty],
                stdout = []\<rparr>)
   \<and> add_notifier_obj 0 2
         \<lparr>heap = [Instance ''NotificationService'' [''notifiers'' \<mapsto> Ref 1], ListObject [],
                  Instance ''EmailNotifier'' Map.empty],
          stdout = []\<rparr>
       = (Returned (),
          \<lparr>heap = [Instance ''NotificationService'' [''notifiers'' \<mapsto> Ref 1], ListObject [2],
                   Instance ''EmailNotifier'' Map.empty],
           stdout = []\<rparr>)
   \<and> notify_all_obj (ocp_provider_classes :: unit provider_classes) 0 ''ok''
         \<lparr>heap = [Instance ''NotificationService'' [''notifiers'' \<mapsto> Ref 1], ListObject [2],
                  Instance ''EmailNotifier'' Map.empty],
          stdout = []\<rparr>
       = Some (Returned (),
               \<lparr>heap = [Instance ''NotificationService'' [''notifiers'' \<mapsto> Ref 1],
                        ListObject [2], Instance ''EmailNotifier'' Map.empty],
                stdout = [emoji_e_mail @ '' Enviando e-mail: ok'']\<rparr>)
   \<and> attr (snd (set_width 0 (float_of_decimal 7 0)
                  (snd (RectangleCorrect (float_of_decimal 5 0) (float_of_decimal 4 0)
                          \<lparr>heap = [], stdout = []\<rparr>)))) 0 ''_width''
       \<noteq> attr (snd (RectangleCorrect (float_of_decimal 5 0) (float_of_decimal 4 0)
                       \<lparr>heap = [], stdout = []\<rparr>)) 0 ''_width''
   \<and> snd (dip_NotificationService_obj 1
            \<lparr>heap = [Instance ''EmailSender'' Map.empty, ListObject [0]], stdout = []\<rparr>)
       = \<lparr>heap = [Instance ''EmailSender'' Map.empty, ListObject [0],
                  Instance ''NotificationService'' [''senders'' \<mapsto> Ref 1]],
          stdout = []\<rparr>
   \<and> notify_obj (dip_provider_classes (\<lambda>a::unit. ''0.00'')) 2 ''ok''
         \<lparr>heap = [Instance ''EmailSender'' Map.empty, ListObject [0],
                  Instance ''NotificationService'' [''senders'' \<mapsto> Ref 1],
                  Instance ''SMSSender'' Map.empty],
          stdout = []\<rparr>
       = Some (Returned (),
               \<lparr>heap = [Instance ''EmailSender'' Map.empty, ListObject [0],
                        Instance ''NotificationService'' [''senders'' \<mapsto> Ref 1],
                        Instance ''SMSSender'' Map.empty],
                stdout = [emoji_e_mail @ '' Enviando e-mail: ok'']\<rparr>)
   \<and> notify_obj (dip_provider_classes (\<lambda>a::unit. ''0.00'')) 2 ''ok''
         (snd (list_append 1 3
                 \<lparr>heap = [Instance ''EmailSender'' Map.empty, ListObject [0],
                          Instance ''NotificationService'' [''senders'' \<mapsto> Ref 1],
                          Instance ''SMSSender'' Map.empty],
                  stdout = []\<rparr>))
       = Some (Returned (),
               \<lparr>heap = [Instance ''EmailSender'' Map.empty, ListObject [0, 3],
                        Instance ''NotificationService'' [''senders'' \<mapsto> Ref 1],
                        Instance ''SMSSender'' Map.empty],
                stdout = [emoji_e_mail @ '' Enviando e-mail: ok'',
                          emoji_mobile_phone @ '' Enviando SMS: ok'']\<rparr>)"
proof -
  note steps = send_each.simps [where i = 0] send_each.simps [where i = "Suc 0"]
    send_each.simps [where i = "Suc (Suc 0)"]
  note eval = list_items_def method_of_def class_of_def attr_def on_console_def print_def
  have a: "snd (new_instance ''EmailNotifier''
          (snd (ocp_NotificationService_obj \<lparr>heap = [], stdout = []\<rparr>)))
     = \<lparr>heap = [Instance ''NotificationService'' [''notifiers'' \<mapsto> Ref 1], ListObject [],
                Instance ''EmailNotifier'' Map.empty],
        stdout = []\<rparr>"
    by (simp add: constructors_in_store new_instance_def alloc_def)
  have b: "notify_all_obj (ocp_provider_classes :: unit provider_classes) 0 ''ok''
         \<lparr>heap = [Instance ''NotificationService'' [''notifiers'' \<mapsto> Ref 1], ListObject [],
                  Instance ''EmailNotifier'' Map.empty],
          stdout = []\<rparr>
       = Some (Returned (),
               \<lparr>heap = [Instance ''NotificationService'' [''notifiers'' \<mapsto> Ref 1],
                        ListObject [], Instance ''EmailNotifier'' Map.empty],
                stdout = []\<rparr>)"
    by (simp add: notify_all_obj_def steps eval)
  have c: "add_notifier_obj 0 2
         \<lparr>heap = [Instance ''NotificationService'' [''notifiers'' \<mapsto> Ref 1], ListObject [],
                  Instance ''EmailNotifier'' Map.empty],
          stdout = []\<rparr>
       = (Returned (),
          \<lparr>heap = [Instance ''NotificationService'' [''notifiers'' \<mapsto> Ref 1], ListObject [2],
                   Instance ''EmailNotifier'' Map.empty],
           stdout = []\<rparr>)"
    by (simp add: add_notifier_obj_def list_append_def eval)
  have d: "notify_all_obj (ocp_provider_classes :: unit provider_classes) 0 ''ok''
         \<lparr>heap = [Instance ''NotificationService'' [''notifiers'' \<mapsto> Ref 1], ListObject [2],
                  Instance ''EmailNotifier'' Map.empty],
          stdout = []\<rparr>
       = Some (Returned (),
               \<lparr>heap = [Instance ''NotificationService'' [''notifiers'' \<mapsto> Ref 1],
                        ListObject [2], Instance ''EmailNotifier'' Map.empty],
                stdout = [emoji_e_mail @ '' Enviando e-mail: ok'']\<rparr>)"
    by (simp add: notify_all_obj_def steps eval ocp_provider_classes_def EmailNotifier_def)
  have e: "attr (snd (set_width 0 (float_of_decimal 7 0)
                  (snd (RectangleCorrect (float_of_decimal 5 0) (float_of_decimal 4 0)
                          \<lparr>heap = [], stdout = []\<rparr>)))) 0 ''_width''
       \<noteq> attr (snd (RectangleCorrect (float_of_decimal 5 0) (float_of_decimal 4 0)
                       \<lparr>heap = [], stdout = []\<rparr>)) 0 ''_width''"
    by (simp add: RectangleCorrect_def set_width_def set_attr_def new_instance_def alloc_def
          attr_def float_5_7_differ)
  have f: "snd (dip_NotificationService_obj 1
            \<lparr>heap = [Instance ''EmailSender'' Map.empty, ListObject [0]], stdout = []\<rparr>)
       = \<lparr>heap = [Instance ''EmailSender'' Map.empty, ListObject [0],
                  Instance ''NotificationService'' [''senders'' \<mapsto> Ref 1]],
          stdout = []\<rparr>"
    by (simp add: constructors_in_store)
  have g: "notify_obj (dip_provider_classes (\<lambda>a::unit. ''0.00'')) 2 ''ok''
         \<lparr>heap = [Instance ''EmailSender'' Map.empty, ListObject [0],
                  Instance ''NotificationService'' [''senders'' \<mapsto> Ref 1],
                  Instance ''SMSSender'' Map.empty],
          stdout = []\<rparr>
       = Some (Returned (),
               \<lparr>heap = [Instance ''EmailSender'' Map.empty, ListObject [0],
                        Instance ''NotificationService'' [''senders'' \<mapsto> Ref 1],
                        Instance ''SMSSender'' Map.empty],
                stdout = [emoji_e_mail @ '' Enviando e-mail: ok'']\<rparr>)"
    by (simp add: notify_obj_def steps eval dip_provider_classes_def EmailSender_def)
  have h: "notify_obj (dip_provider_classes (\<lambda>a::unit. ''0.00'')) 2 ''ok''
         (snd (list_append 1 3
                 \<lparr>heap = [Instance ''EmailSender'' Map.empty, ListObject [0],
                          Instance ''NotificationService'' [''senders'' \<mapsto> Ref 1],
                          Instance ''SMSSender'' Map.empty],
                  stdout = []\<rparr>))
       = Some (Returned (),
               \<lparr>heap = [Instance ''EmailSender'' Map.empty, ListObject [0, 3],
                        Instance ''NotificationService'' [''senders'' \<mapsto> Ref 1],
                        Instance ''SMSSender'' Map.empty],
                stdout = [emoji_e_mail @ '' Enviando e-mail: ok'',
                          emoji_mobile_phone @ '' Enviando SMS: ok'']\<rparr>)"
    by (simp add: notify_obj_def list_append_def steps eval dip_provider_classes_def
          EmailSender_def SMSSender_def)
  from a b c d e f g h show ?thesis
    by (intro conjI)
qed

text \<open>
  C7 amended: in the corrected examples an object changes after its construction
  through a setter, or through a list it shares with its caller, and in no other
  way.  \<^verbatim>\<open>add_notifier\<close> appends the notifier to the list of the service and changes
  nothing else; \<^verbatim>\<open>set_width\<close>, \<^verbatim>\<open>set_height\<close> and \<^verbatim>\<open>set_side\<close> replace the attribute
  they name and no other; the \<^verbatim>\<open>NotificationService\<close> of \<^verbatim>\<open>dip_example.py\<close> keeps the
  list object it was given, not a copy.  The providers of the scripts write to no
  object.  With providers that write to no object, every other operation of a
  consumer (\<^verbatim>\<open>notify_all\<close>, \<^verbatim>\<open>notify\<close>, \<^verbatim>\<open>save_user\<close>, \<^verbatim>\<open>get_user\<close>, \<^verbatim>\<open>create_order\<close>,
  \<^verbatim>\<open>calculate_final_price\<close>) ends and leaves every object of the store as it was, the
  consumer and its bound providers included; \<^verbatim>\<open>get_area\<close> changes nothing at all; and
  every method but \<^verbatim>\<open>__init__\<close> that a corrected class of \<^verbatim>\<open>isp_exemple.py\<close> or a
  corrected bird exposes returns the object it was called on unchanged.
\<close>

theorem only_setters_change_objects:
  "keeps_heap (ocp_provider_classes :: 'a provider_classes)
   \<and> keeps_heap (dip_provider_classes (format_2f :: 'a \<Rightarrow> string))
   \<and> (keeps_heap (P :: 'a provider_classes) \<longrightarrow>
        (\<exists>r w'. notify_all_obj P self message w = Some (r, w') \<and> heap w' = heap w)
        \<and> (\<exists>r w'. notify_obj P self message w = Some (r, w') \<and> heap w' = heap w)
        \<and> heap (snd (save_user_obj P self user w)) = heap w
        \<and> heap (snd (get_user_obj P self ident w)) = heap w
        \<and> heap (snd (create_order_obj format_2f P self amount w)) = heap w
        \<and> heap (snd (calculate_final_price_obj P self price discount w)) = heap w)
   \<and> snd (RectangleCorrect_get_area shape u) = u
   \<and> snd (SquareCorrect_get_area shape u) = u
   \<and> (attr w self ''notifiers'' = Some (Ref l) \<longrightarrow> list_items w l = Some xs \<longrightarrow>
        add_notifier_obj self notifier w
          = (Returned (), w\<lparr>heap := (heap w)[l := ListObject (xs @ [notifier])]\<rparr>))
   \<and> (shape < length (heap u) \<longrightarrow> heap u ! shape = Instance c attrs \<longrightarrow>
        set_width shape x u
          = (Returned (),
             u\<lparr>heap := (heap u)[shape := Instance c (attrs(''_width'' \<mapsto> Float x))]\<rparr>)
        \<and> set_height shape x u
          = (Returned (),
             u\<lparr>heap := (heap u)[shape := Instance c (attrs(''_height'' \<mapsto> Float x))]\<rparr>)
        \<and> set_side shape x u
          = (Returned (),
             u\<lparr>heap := (heap u)[shape := Instance c (attrs(''_side'' \<mapsto> Float x))]\<rparr>))
   \<and> dip_NotificationService_obj l w
       = (length (heap w),
          w\<lparr>heap := heap w @ [Instance ''NotificationService'' [''senders'' \<mapsto> Ref l]]\<rparr>)
   \<and> (k \<in> set isp_corrected \<longrightarrow> resolve isp_classes k m = Some meth \<longrightarrow>
        length args = arity meth \<longrightarrow>
          fst (snd (call isp_classes \<lparr>obj_class = k, obj_dict = Map.empty\<rparr> m args out))
            = \<lparr>obj_class = k, obj_dict = Map.empty\<rparr>)
   \<and> (b \<in> set lsp_corrected \<longrightarrow> n \<noteq> ''__init__'' \<longrightarrow> resolve lsp_classes b n = Some meth' \<longrightarrow>
        length args' = arity meth' \<longrightarrow>
          fst (snd (call lsp_classes \<lparr>obj_class = b, obj_dict = [''name'' \<mapsto> v]\<rparr> n args' out))
            = \<lparr>obj_class = b, obj_dict = [''name'' \<mapsto> v]\<rparr>)"
proof -
  have consumers:
    "(\<exists>r w'. notify_all_obj P self message w = Some (r, w') \<and> heap w' = heap w)
     \<and> (\<exists>r w'. notify_obj P self message w = Some (r, w') \<and> heap w' = heap w)
     \<and> heap (snd (save_user_obj P self user w)) = heap w
     \<and> heap (snd (get_user_obj P self ident w)) = heap w
     \<and> heap (snd (create_order_obj format_2f P self amount w)) = heap w
     \<and> heap (snd (calculate_final_price_obj P self price discount w)) = heap w"
    if "keeps_heap P"
    using notify_all_obj_keeps_heap [OF that] notify_obj_keeps_heap [OF that]
      save_user_obj_keeps_heap [OF that] get_user_obj_keeps_heap [OF that]
      create_order_obj_keeps_heap [OF that] calculate_final_price_obj_keeps_heap [OF that]
    by (intro conjI)
  have setters:
    "set_width shape x u
       = (Returned (),
          u\<lparr>heap := (heap u)[shape := Instance c (attrs(''_width'' \<mapsto> Float x))]\<rparr>)
     \<and> set_height shape x u
       = (Returned (),
          u\<lparr>heap := (heap u)[shape := Instance c (attrs(''_height'' \<mapsto> Float x))]\<rparr>)
     \<and> set_side shape x u
       = (Returned (),
          u\<lparr>heap := (heap u)[shape := Instance c (attrs(''_side'' \<mapsto> Float x))]\<rparr>)"
    if "shape < length (heap u)" "heap u ! shape = Instance c attrs"
    using setters_replace_one_attribute [OF that]
    by (intro conjI)
  show ?thesis
    using consumers setters
    by (intro conjI impI)
       (simp_all add: keeps_heap_ocp keeps_heap_dip get_area_keeps_world
          add_notifier_obj_appends constructors_in_store isp_corrected_calls_keep_object
          lsp_corrected_calls_keep_object)
qed

theorem only_setters_change_objects_witness:
  "map_option (\<lambda>rw. heap (snd rw))
     (notify_all_obj (ocp_provider_classes :: unit provider_classes) 0 ''ok''
        \<lparr>heap = [Instance ''NotificationService'' [''notifiers'' \<mapsto> Ref 1], ListObject [2],
                 Instance ''EmailNotifier'' Map.empty],
         stdout = []\<rparr>)
     = Some [Instance ''NotificationService'' [''notifiers'' \<mapsto> Ref 1], ListObject [2],
             Instance ''EmailNotifier'' Map.empty]
   \<and> add_notifier_obj 0 2
         \<lparr>heap = [Instance ''NotificationService'' [''notifiers'' \<mapsto> Ref 1], ListObject [2],
                  Instance ''EmailNotifier'' Map.empty],
          stdout = []\<rparr>
       = (Returned (),
          \<lparr>heap = [Instance ''NotificationService'' [''notifiers'' \<mapsto> Ref 1],
                   ListObject [2, 2], Instance ''EmailNotifier'' Map.empty],
           stdout = []\<rparr>)
   \<and> set_height 0 (float_of_decimal 4 0)
         \<lparr>heap = [Instance ''RectangleCorrect''
                    [''_width'' \<mapsto> Float (float_of_decimal 5 0),
                     ''_height'' \<mapsto> Float (float_of_decimal 0 0)]],
          stdout = []\<rparr>
       = (Returned (),
          \<lparr>heap = [Instance ''RectangleCorrect''
                     [''_width'' \<mapsto> Float (float_of_decimal 5 0),
                      ''_height'' \<mapsto> Float (float_of_decimal 4 0)]],
           stdout = []\<rparr>)
   \<and> fst (snd (call isp_classes \<lparr>obj_class = ''RobotWorkerCorrect'', obj_dict = Map.empty\<rparr>
                  ''work'' [] []))
       = \<lparr>obj_class = ''RobotWorkerCorrect'', obj_dict = Map.empty\<rparr>
   \<and> fst (snd (call lsp_classes
                  \<lparr>obj_class = ''PenguinCorrect'', obj_dict = [''name'' \<mapsto> PyStr ''Pinguim'']\<rparr>
                  ''swim'' [] []))
       = \<lparr>obj_class = ''PenguinCorrect'', obj_dict = [''name'' \<mapsto> PyStr ''Pinguim'']\<rparr>"
proof -
  let ?W = "\<lparr>heap = [Instance ''NotificationService'' [''notifiers'' \<mapsto> Ref 1], ListObject [2],
                     Instance ''EmailNotifier'' Map.empty],
             stdout = []\<rparr>"
  let ?R = "\<lparr>heap = [Instance ''RectangleCorrect''
                       [''_width'' \<mapsto> Float (float_of_decimal 5 0),
                        ''_height'' \<mapsto> Float (float_of_decimal 0 0)]],
             stdout = []\<rparr>"
  let ?work = "\<lparr>is_abstract = False, arity = 0,
                 body = (\<lambda>self args out. (Returned PyNone, self,
                   print (emoji_robot @ '' Rob'' @ o_circumflex @ '' trabalhando 24/7...'') out))\<rparr>"
  let ?swim = "\<lparr>is_abstract = False, arity = 0,
                 body = (\<lambda>self args out.
                   case obj_dict self ''name'' of
                     None \<Rightarrow> (Raised AttributeError, self, out)
                   | Some v_name \<Rightarrow>
                       (Returned PyNone, self,
                        print (py_str v_name @ '' est'' @ a_acute @ '' nadando!'') out))\<rparr>"
  note t = only_setters_change_objects
             [where P = "ocp_provider_classes :: unit provider_classes" and self = 0
                and message = "''ok''" and w = ?W and user = "''''" and ident = "''''"
                and format_2f = "\<lambda>a::unit. ''0.00''" and amount = "()"
                and price = "float_of_decimal 0 0" and discount = 2
                and shape = 0 and u = ?R and l = 1 and xs = "[2]" and notifier = 2
                and c = "''RectangleCorrect''"
                and attrs = "[''_width'' \<mapsto> Float (float_of_decimal 5 0),
                             ''_height'' \<mapsto> Float (float_of_decimal 0 0)]"
                and x = "float_of_decimal 4 0"
                and k = "''RobotWorkerCorrect''" and m = "''work''" and meth = ?work
                and args = "[]" and out = "[]"
                and b = "''PenguinCorrect''" and n = "''swim''" and meth' = ?swim
                and args' = "[]" and v = "PyStr ''Pinguim''"]
  have kh: "keeps_heap (ocp_provider_classes :: unit provider_classes)"
    using t by (rule conjunct1)
  have "\<exists>r w'. notify_all_obj (ocp_provider_classes :: unit provider_classes) 0 ''ok'' ?W
                  = Some (r, w') \<and> heap w' = heap ?W"
    using t kh by blast
  then have c1: "map_option (\<lambda>rw. heap (snd rw))
                   (notify_all_obj (ocp_provider_classes :: unit provider_classes) 0 ''ok'' ?W)
                 = Some [Instance ''NotificationService'' [''notifiers'' \<mapsto> Ref 1],
                         ListObject [2], Instance ''EmailNotifier'' Map.empty]"
    by auto
  have a1: "attr ?W 0 ''notifiers'' = Some (Ref 1)" and a2: "list_items ?W 1 = Some [2]"
    by (simp_all add: attr_def list_items_def)
  have "add_notifier_obj 0 2 ?W
          = (Returned (), ?W\<lparr>heap := (heap ?W)[1 := ListObject ([2] @ [2])]\<rparr>)"
    using t a1 a2 by blast
  then have c2: "add_notifier_obj 0 2 ?W
       = (Returned (),
          \<lparr>heap = [Instance ''NotificationService'' [''notifiers'' \<mapsto> Ref 1],
                   ListObject [2, 2], Instance ''EmailNotifier'' Map.empty],
           stdout = []\<rparr>)"
    by simp
  have s1: "0 < length (heap ?R)"
    and s2: "heap ?R ! 0 = Instance ''RectangleCorrect''
                             [''_width'' \<mapsto> Float (float_of_decimal 5 0),
                              ''_height'' \<mapsto> Float (float_of_decimal 0 0)]"
    by simp_all
  have "set_height 0 (float_of_decimal 4 0) ?R
          = (Returned (),
             ?R\<lparr>heap := (heap ?R)[0 := Instance ''RectangleCorrect''
                  ([''_width'' \<mapsto> Float (float_of_decimal 5 0),
                    ''_height'' \<mapsto> Float (float_of_decimal 0 0)]
                   (''_height'' \<mapsto> Float (float_of_decimal 4 0)))]\<rparr>)"
    using t s1 s2 by blast
  then have c3: "set_height 0 (float_of_decimal 4 0) ?R
       = (Returned (),
          \<lparr>heap = [Instance ''RectangleCorrect''
                     [''_width'' \<mapsto> Float (float_of_decimal 5 0),
                      ''_height'' \<mapsto> Float (float_of_decimal 4 0)]],
           stdout = []\<rparr>)"
    by simp
  have k: "''RobotWorkerCorrect'' \<in> set isp_corrected"
    by (simp add: isp_corrected_def)
  have rw: "resolve isp_classes ''RobotWorkerCorrect'' ''work'' = Some ?work"
    apply (simp add: resolve_isp_corrected)
    apply (simp add: isp_decls)
    done
  have c4: "fst (snd (call isp_classes
                        \<lparr>obj_class = ''RobotWorkerCorrect'', obj_dict = Map.empty\<rparr>
                        ''work'' [] []))
            = \<lparr>obj_class = ''RobotWorkerCorrect'', obj_dict = Map.empty\<rparr>"
    using t k rw by simp
  have b: "''PenguinCorrect'' \<in> set lsp_corrected"
    by (simp add: lsp_corrected_def)
  have rs: "resolve lsp_classes ''PenguinCorrect'' ''swim'' = Some ?swim"
    apply (simp add: resolve_lsp_corrected)
    apply (simp add: lsp_decls)
    done
  have c5: "fst (snd (call lsp_classes
                  \<lparr>obj_class = ''PenguinCorrect'', obj_dict = [''name'' \<mapsto> PyStr ''Pinguim'']\<rparr>
                  ''swim'' [] []))
       = \<lparr>obj_class = ''PenguinCorrect'', obj_dict = [''name'' \<mapsto> PyStr ''Pinguim'']\<rparr>"
    using t b rs by simp
  from c1 c2 c3 c4 c5 show ?thesis
    by (intro conjI)
qed

end
